theory Spec2Isabelle
  imports Complex_Main "HOL-Library.Sublist"
begin

section \<open>The watcher and backup engine of i-saw-that\<close>

text \<open>
  A shallow embedding of \<^verbatim>\<open>watcher.go\<close> and of the validation helpers it calls
  (\<^verbatim>\<open>validateName\<close>, \<^verbatim>\<open>validateWaitTime\<close>, \<^verbatim>\<open>validateFolderFormat\<close>, \<^verbatim>\<open>validateDir\<close>,
  \<^verbatim>\<open>validateSourceAndDestination\<close>). Every Go function that mutates the watcher or the
  file system takes the state and returns the new one. A Go \<^verbatim>\<open>error\<close> result is a value of
  type \<open>error\<close>; the aggregate built with \<^verbatim>\<open>errors.Join\<close> is the list of the joined
  errors, \<^verbatim>\<open>nil\<close> being the empty list. Calls of \<^verbatim>\<open>log.Printf\<close> have no effect on the
  state and are left out.
\<close>

subsection \<open>Errors\<close>

text \<open>
  \<open>os_error\<close> separates what \<^verbatim>\<open>validateDir\<close> separates in the result of \<^verbatim>\<open>os.Stat\<close>:
  \<^verbatim>\<open>os.IsNotExist\<close>, another \<^verbatim>\<open>*os.PathError\<close>, and any other error.
  \<open>Errorf f args\<close> is \<^verbatim>\<open>fmt.Errorf(f, args...)\<close> with the format string kept verbatim.
  \<open>UnsupportedValueError\<close> is the error of \<^verbatim>\<open>encoding/json\<close> for a \<^verbatim>\<open>float64\<close> that is
  infinite or not a number.
\<close>

datatype os_error = NotExist | PathError | OtherError

datatype error =
    ErrorInvalidNameV2
  | ErrorInvalidWaitTime
  | ErrorInvalidSource
  | ErrorInvalidDestination
  | ErrorInvalidFolderFormat
  | OSError os_error
  | SyntaxError
  | UnsupportedValueError
  | Panic string
  | New string
  | Errorf string "fmt_arg list"
and fmt_arg = ArgError error | ArgString string

subsection \<open>The type \<^verbatim>\<open>float64\<close>\<close>

text \<open>
  A \<^verbatim>\<open>float64\<close> is an IEEE 754 binary64 number. \<open>Float m e\<close> is the finite number
  \<open>m * 2 ^ e\<close>, written with an odd \<open>m\<close>, or with \<open>m = 0\<close> and \<open>e = 0\<close> for zero; it is a
  \<^verbatim>\<open>float64\<close> when \<open>\<bar>m\<bar> < 2 ^ 53\<close>, \<open>- 1074 \<le> e\<close> and \<open>\<bar>m * 2 ^ e\<bar> < 2 ^ 1024\<close>. The sign
  of zero is not kept: no operation that the program applies tells the two zeros apart.

  \<open>bits n\<close> is the number of binary digits of \<open>n\<close>. \<open>f64_norm m e\<close> writes \<open>m * 2 ^ e\<close>
  with an odd \<open>m\<close>. \<open>f64_round M E\<close> is the \<^verbatim>\<open>float64\<close> nearest to the exact number
  \<open>M * 2 ^ E\<close>, with ties to the even significand: \<open>q\<close> is the exponent of the last
  binary digit that the result can keep (53 digits, and none below \<open>2 ^ - 1074\<close>), and the
  digits below it decide the rounding; a result of \<open>2 ^ 1024\<close> or more is infinite. Every
  arithmetic operation returns the rounding of its exact result, as IEEE 754 prescribes
  for \<^verbatim>\<open>float64\<close>.
\<close>

datatype float64 = Float int int | PosInf | NegInf | NaN

function bits :: "int \<Rightarrow> int" where
  "bits n = (if n \<le> 0 then 0 else 1 + bits (n div 2))"
  by pat_completeness auto
termination
  by (relation "measure nat") auto

declare bits.simps [simp del]

function f64_norm :: "int \<Rightarrow> int \<Rightarrow> float64" where
  "f64_norm m e =
     (if m = 0 then Float 0 0
      else if even m then f64_norm (m div 2) (e + 1)
      else Float m e)"
  by pat_completeness auto
termination
  by (relation "measure (\<lambda>(m, e). nat \<bar>m\<bar>)") auto

declare f64_norm.simps [simp del]

definition f64_inf :: "int \<Rightarrow> float64" where
  "f64_inf m = (if 0 < m then PosInf else NegInf)"

definition f64_round :: "int \<Rightarrow> int \<Rightarrow> float64" where
  "f64_round M E =
     (if M = 0 then Float 0 0
      else
        (let n = bits \<bar>M\<bar>;
             q = max (n + E - 53) (- 1074)
         in if q \<le> E then (if 1024 < n + E then f64_inf M else f64_norm M E)
            else
              (let s = nat (q - E);
                   Q = \<bar>M\<bar> div 2 ^ s;
                   R = \<bar>M\<bar> mod 2 ^ s;
                   Q' = (if 2 ^ (s - 1) < R \<or> (R = 2 ^ (s - 1) \<and> odd Q) then Q + 1 else Q)
               in if 1024 < bits Q' + q then f64_inf M
                  else f64_norm (sgn M * Q') q)))"

text \<open>
  \<^verbatim>\<open>float64(n)\<close> for an integer \<open>n\<close>; \<^verbatim>\<open>-x\<close>, \<^verbatim>\<open>x + y\<close>, \<^verbatim>\<open>x - y\<close>, \<^verbatim>\<open>x * y\<close>, \<^verbatim>\<open>x / y\<close> and
  \<^verbatim>\<open>x <= y\<close>. For the quotient, \<open>Q\<close> holds at least 56 leading binary digits of the exact
  quotient and one more digit records whether the division left a remainder.
\<close>

definition f64_of_int :: "int \<Rightarrow> float64" where
  "f64_of_int n = f64_round n 0"

fun f64_neg :: "float64 \<Rightarrow> float64" where
  "f64_neg (Float m e) = Float (- m) e"
| "f64_neg PosInf = NegInf"
| "f64_neg NegInf = PosInf"
| "f64_neg NaN = NaN"

fun f64_sign :: "float64 \<Rightarrow> int" where
  "f64_sign (Float m e) = sgn m"
| "f64_sign PosInf = 1"
| "f64_sign NegInf = - 1"
| "f64_sign NaN = 0"

fun f64_add :: "float64 \<Rightarrow> float64 \<Rightarrow> float64" where
  "f64_add (Float m1 e1) (Float m2 e2) =
     f64_round (m1 * 2 ^ nat (e1 - min e1 e2) + m2 * 2 ^ nat (e2 - min e1 e2)) (min e1 e2)"
| "f64_add NaN y = NaN"
| "f64_add x NaN = NaN"
| "f64_add PosInf NegInf = NaN"
| "f64_add NegInf PosInf = NaN"
| "f64_add PosInf y = PosInf"
| "f64_add NegInf y = NegInf"
| "f64_add x PosInf = PosInf"
| "f64_add x NegInf = NegInf"

definition f64_sub :: "float64 \<Rightarrow> float64 \<Rightarrow> float64" where
  "f64_sub x y = f64_add x (f64_neg y)"

fun f64_mul :: "float64 \<Rightarrow> float64 \<Rightarrow> float64" where
  "f64_mul (Float m1 e1) (Float m2 e2) = f64_round (m1 * m2) (e1 + e2)"
| "f64_mul NaN y = NaN"
| "f64_mul x NaN = NaN"
| "f64_mul x y =
     (if f64_sign x * f64_sign y = 0 then NaN else f64_inf (f64_sign x * f64_sign y))"

fun f64_div :: "float64 \<Rightarrow> float64 \<Rightarrow> float64" where
  "f64_div (Float m1 e1) (Float m2 e2) =
     (if m2 = 0 then (if m1 = 0 then NaN else f64_inf m1)
      else
        (let k = nat (max 0 (bits \<bar>m2\<bar> - bits \<bar>m1\<bar> + 56));
             Q = (\<bar>m1\<bar> * 2 ^ k) div \<bar>m2\<bar>;
             R = (\<bar>m1\<bar> * 2 ^ k) mod \<bar>m2\<bar>
         in f64_round (sgn m1 * sgn m2 * (2 * Q + (if R = 0 then 0 else 1)))
              (e1 - e2 - int k - 1)))"
| "f64_div NaN y = NaN"
| "f64_div x NaN = NaN"
| "f64_div (Float m1 e1) y = Float 0 0"
| "f64_div x (Float m2 e2) = f64_inf (f64_sign x * (if m2 < 0 then - 1 else 1))"
| "f64_div x y = NaN"

fun f64_le :: "float64 \<Rightarrow> float64 \<Rightarrow> bool" where
  "f64_le (Float m1 e1) (Float m2 e2) =
     (m1 * 2 ^ nat (e1 - min e1 e2) \<le> m2 * 2 ^ nat (e2 - min e1 e2))"
| "f64_le NaN y = False"
| "f64_le x NaN = False"
| "f64_le NegInf y = True"
| "f64_le x PosInf = True"
| "f64_le x y = False"

fun f64_finite :: "float64 \<Rightarrow> bool" where
  "f64_finite (Float m e) = True"
| "f64_finite x = False"

text \<open>The real number that a finite \<^verbatim>\<open>float64\<close> denotes.\<close>

fun f64_real :: "float64 \<Rightarrow> real" where
  "f64_real (Float m e) = (if 0 \<le> e then of_int m * 2 ^ nat e else of_int m / 2 ^ nat (- e))"
| "f64_real x = 0"

text \<open>
  An \<^verbatim>\<open>int64\<close> is an integer from \<open>- 2 ^ 63\<close> to \<open>2 ^ 63 - 1\<close>; \<open>wrap64\<close> is the value that
  two's complement arithmetic keeps of an integer, and \<open>int64_quo\<close> is Go's integer
  division, which truncates towards zero. \<open>f64_trunc x\<close> is \<open>x\<close> without its fractional
  part when that is an \<^verbatim>\<open>int64\<close>.
\<close>

definition wrap64 :: "int \<Rightarrow> int" where
  "wrap64 n = (n + 9223372036854775808) mod 18446744073709551616 - 9223372036854775808"

definition int64_quo :: "int \<Rightarrow> int \<Rightarrow> int" where
  "int64_quo a b = sgn a * sgn b * (\<bar>a\<bar> div \<bar>b\<bar>)"

fun f64_trunc :: "float64 \<Rightarrow> int option" where
  "f64_trunc (Float m e) =
     (let v = (if 0 \<le> e then m * 2 ^ nat e else sgn m * (\<bar>m\<bar> div 2 ^ nat (- e)))
      in if - 9223372036854775808 \<le> v \<and> v \<le> 9223372036854775807 then Some v else None)"
| "f64_trunc x = None"

subsection \<open>Backup records and the file system\<close>

text \<open>
  A \<^verbatim>\<open>time.Time\<close> is its number of nanoseconds since the epoch.
\<close>

record Backup =
  BackupName :: string
  Timestamp :: float64
  Path :: string
  Compressed :: bool

text \<open>
  The bytes of a file are either the document that \<^verbatim>\<open>json.MarshalIndent\<close> writes for a
  list of backups, or other bytes.
\<close>

datatype file_content = Raw string | BackupsJSON "Backup list"

text \<open>
  What a path resolves to. \<open>File m r c\<close>: modification time, whether \<^verbatim>\<open>os.ReadFile\<close>
  succeeds, the bytes. \<open>Dir m l es\<close>: modification time, whether \<^verbatim>\<open>os.ReadDir\<close> succeeds,
  the entries in the order \<^verbatim>\<open>os.ReadDir\<close> returns them. \<open>NoNode e\<close>: \<^verbatim>\<open>os.Stat\<close> fails
  with \<open>e\<close>.
\<close>

datatype node =
    File int bool file_content
  | Dir int bool "(string \<times> node) list"
  | NoNode os_error

record FileInfo =
  IsDir :: bool
  ModTime :: int

fun os_Stat :: "node \<Rightarrow> os_error + FileInfo" where
  "os_Stat (File m r c) = Inr \<lparr>IsDir = False, ModTime = m\<rparr>"
| "os_Stat (Dir m l es) = Inr \<lparr>IsDir = True, ModTime = m\<rparr>"
| "os_Stat (NoNode e) = Inl e"

fun os_ReadFile :: "node \<Rightarrow> os_error + file_content" where
  "os_ReadFile (File m r c) = (if r then Inr c else Inl PathError)"
| "os_ReadFile (Dir m l es) = Inl PathError"
| "os_ReadFile (NoNode e) = Inl e"

fun os_ReadDir :: "node \<Rightarrow> os_error + (string \<times> node) list" where
  "os_ReadDir (Dir m l es) = (if l then Inr es else Inl PathError)"
| "os_ReadDir (File m r c) = Inl PathError"
| "os_ReadDir (NoNode e) = Inl e"

text \<open>\<^verbatim>\<open>DirEntry.IsDir\<close> of a listed entry.\<close>

fun entryIsDir :: "node \<Rightarrow> bool" where
  "entryIsDir (Dir m l es) = True"
| "entryIsDir (File m r c) = False"
| "entryIsDir (NoNode e) = False"

subsection \<open>The tree comparator\<close>

text \<open>
  \<^verbatim>\<open>doFilesMatch\<close> and \<^verbatim>\<open>doFoldersMatch\<close> take the nodes their path arguments resolve to;
  \<^verbatim>\<open>filepath.Join(dir, entry.Name())\<close> resolves to the node listed under that name.
  \<open>matchEntries\<close> is the \<^verbatim>\<open>for i := range sourceEntries\<close> loop of \<^verbatim>\<open>doFoldersMatch\<close>.
\<close>

definition doFilesMatch :: "node \<Rightarrow> node \<Rightarrow> error + bool" where
  "doFilesMatch source destination =
     (case os_Stat source of
        Inl err \<Rightarrow> Inl (Errorf ''error stating source file: %v'' [ArgError (OSError err)])
      | Inr sourceInfo \<Rightarrow>
     (case os_Stat destination of
        Inl err \<Rightarrow> Inl (Errorf ''error stating destination file: %v'' [ArgError (OSError err)])
      | Inr destInfo \<Rightarrow>
     (case os_ReadFile source of
        Inl err \<Rightarrow> Inl (Errorf ''error reading source file: %v'' [ArgError (OSError err)])
      | Inr sourceContent \<Rightarrow>
     (case os_ReadFile destination of
        Inl err \<Rightarrow> Inl (Errorf ''error reading destination file: %v'' [ArgError (OSError err)])
      | Inr destContent \<Rightarrow>
         if sourceContent \<noteq> destContent then Inr False
         else if ModTime sourceInfo \<noteq> ModTime destInfo then Inr False
         else Inr True))))"

function doFoldersMatch :: "node \<Rightarrow> node \<Rightarrow> error + bool"
  and matchEntries :: "(string \<times> node) list \<Rightarrow> (string \<times> node) list \<Rightarrow> error + bool"
where
  "doFoldersMatch source destination =
     (case os_ReadDir source of
        Inl err \<Rightarrow> Inl (Errorf ''error reading source directory: %w'' [ArgError (OSError err)])
      | Inr sourceEntries \<Rightarrow>
     (case os_ReadDir destination of
        Inl err \<Rightarrow>
          Inl (Errorf ''error reading destination directory: %w'' [ArgError (OSError err)])
      | Inr destEntries \<Rightarrow>
         if length sourceEntries \<noteq> length destEntries then Inr False
         else matchEntries sourceEntries destEntries))"
| "matchEntries [] destEntries = Inr True"
| "matchEntries (sourceEntry # sourceEntries) [] = Inl (Panic ''index out of range'')"
| "matchEntries (sourceEntry # sourceEntries) (destinationEntry # destEntries) =
     (if fst sourceEntry \<noteq> fst destinationEntry then Inr False
      else if entryIsDir (snd sourceEntry) \<and> entryIsDir (snd destinationEntry) then
        (case doFoldersMatch (snd sourceEntry) (snd destinationEntry) of
           Inl err \<Rightarrow> Inl (Errorf ''error comparing directories: %w'' [ArgError err])
         | Inr subfolderMatch \<Rightarrow>
             if \<not> subfolderMatch then Inr False
             else matchEntries sourceEntries destEntries)
      else if \<not> entryIsDir (snd sourceEntry) \<and> \<not> entryIsDir (snd destinationEntry) then
        (case doFilesMatch (snd sourceEntry) (snd destinationEntry) of
           Inl err \<Rightarrow> Inl (Errorf ''error comparing files: %w'' [ArgError err])
         | Inr fileMatch \<Rightarrow>
             if \<not> fileMatch then Inr False
             else matchEntries sourceEntries destEntries)
      else Inr False)"
  by pat_completeness auto
termination
  apply (relation "measure (\<lambda>x. case x of
          Inl (s, d) \<Rightarrow> 2 * size s + 1
        | Inr (ss, ds) \<Rightarrow> 2 * size_list (size_prod (\<lambda>_. 0) size) ss)")
  subgoal by simp
  subgoal for source destination es by (cases source) (auto split: if_splits)
  apply auto
  done

declare doFoldersMatch.simps [simp del]

text \<open>
  The comparison as the specification words it: the entries of both directories can be
  listed, the counts are equal, and every positional pair has equal names and equal kinds,
  directories match recursively, files have equal bytes and equal modification times.
\<close>

fun spec_files_equal :: "node \<Rightarrow> node \<Rightarrow> bool" where
  "spec_files_equal (File ma ra ca) (File mb rb cb) = (ra \<and> rb \<and> ca = cb \<and> ma = mb)"
| "spec_files_equal a b = False"

fun spec_trees_match :: "node \<Rightarrow> node \<Rightarrow> bool" where
  "spec_trees_match (Dir ma la as) (Dir mb lb bs) =
     (la \<and> lb \<and> length as = length bs \<and>
      list_all2 (\<lambda>a b. fst a = fst b \<and> entryIsDir (snd a) = entryIsDir (snd b) \<and>
                  (if entryIsDir (snd a) then spec_trees_match (snd a) (snd b)
                   else spec_files_equal (snd a) (snd b))) as bs)"
| "spec_trees_match a b = False"

subsection \<open>Library functions and the outside world\<close>

text \<open>
  The functions of the Go standard library that depend on the platform or on the process
  are parameters: \<^verbatim>\<open>Time.Format\<close> (layout, instant), \<^verbatim>\<open>filepath.Join\<close>,
  \<^verbatim>\<open>filepath.Abs\<close>, \<^verbatim>\<open>filepath.Rel\<close> and \<^verbatim>\<open>filepath.IsAbs\<close>; as in Go, \<^verbatim>\<open>Abs\<close> and
  \<^verbatim>\<open>Rel\<close> return a string together with an error. \<^verbatim>\<open>json.Unmarshal\<close> into a
  \<^verbatim>\<open>[]Backup\<close> is a parameter as well. The last parameter is the result of the conversion
  \<^verbatim>\<open>int64(x)\<close> of a \<^verbatim>\<open>float64\<close> that no \<^verbatim>\<open>int64\<close> represents, which the Go specification
  leaves to the implementation.
\<close>

record env =
  time_Format :: "string \<Rightarrow> int \<Rightarrow> string"
  filepath_Join :: "string \<Rightarrow> string \<Rightarrow> string"
  filepath_Abs :: "string \<Rightarrow> string \<times> error option"
  filepath_Rel :: "string \<Rightarrow> string \<Rightarrow> string \<times> error option"
  filepath_IsAbs :: "string \<Rightarrow> bool"
  json_Unmarshal :: "file_content \<Rightarrow> error + Backup list"
  int64_unrepresentable :: "float64 \<Rightarrow> int"

text \<open>
  \<open>int64 env x\<close> is the conversion \<^verbatim>\<open>int64(x)\<close> of a \<^verbatim>\<open>float64\<close>, which truncates towards
  zero; \<^verbatim>\<open>time.Duration(x)\<close> is the same conversion.
\<close>

definition int64 :: "env \<Rightarrow> float64 \<Rightarrow> int" where
  "int64 env x =
     (case f64_trunc x of
        Some v \<Rightarrow> v
      | None \<Rightarrow> wrap64 (int64_unrepresentable env x))"

text \<open>
  \<open>time_Unix sec nsec\<close> is \<^verbatim>\<open>time.Unix(sec, nsec)\<close>: nanoseconds outside \<open>[0, 10 ^ 9)\<close>
  are carried into the seconds, and the seconds are kept as an \<^verbatim>\<open>int64\<close> counted from the
  year 1, which is 62135596800 seconds before the epoch. \<open>Unix\<close> and \<open>Nanosecond\<close> are the
  methods of \<^verbatim>\<open>time.Time\<close>, for the instants that \<^verbatim>\<open>time.Now\<close> returns.
\<close>

definition time_Unix :: "int \<Rightarrow> int \<Rightarrow> int" where
  "time_Unix sec nsec =
     (let n = (if nsec < 0 \<or> 1000000000 \<le> nsec then int64_quo nsec 1000000000 else 0);
          sec1 = wrap64 (sec + n);
          nsec1 = nsec - n * 1000000000;
          sec2 = (if nsec1 < 0 then wrap64 (sec1 - 1) else sec1);
          nsec2 = (if nsec1 < 0 then nsec1 + 1000000000 else nsec1)
      in (wrap64 (sec2 + 62135596800) - 62135596800) * 1000000000 + nsec2)"

definition Unix :: "int \<Rightarrow> int" where
  "Unix t = t div 1000000000"

definition Nanosecond :: "int \<Rightarrow> int" where
  "Nanosecond t = t mod 1000000000"

text \<open>
  The world outside the watcher: what each path resolves to, the paths on which
  \<^verbatim>\<open>os.MkdirAll\<close> and \<^verbatim>\<open>os.WriteFile\<close> fail, how many of the coming calls of \<^verbatim>\<open>cp.Copy\<close>
  fail (a locked file), the number of calls of \<^verbatim>\<open>cp.Copy\<close> made so far, the wall clock in
  nanoseconds since the epoch, the instant of the wall clock at which the monotonic clock
  of the process read 0, and the observers whose callback has been invoked, in order.
\<close>

record world =
  fs :: "string \<Rightarrow> node"
  write_denied :: "string \<Rightarrow> bool"
  copy_failures :: nat
  copy_calls :: nat
  clock :: int
  boot :: int
  notified :: "nat list"

definition time_Sleep :: "int \<Rightarrow> world \<Rightarrow> world" where
  "time_Sleep d wld = wld\<lparr>clock := clock wld + d\<rparr>"

text \<open>
  The instant at which a timer made by \<^verbatim>\<open>time.NewTimer(d)\<close> fires: at once when \<open>d\<close> is
  not positive, otherwise \<open>d\<close> later, where the runtime keeps the instant as an \<^verbatim>\<open>int64\<close> of
  the monotonic clock and takes the largest \<^verbatim>\<open>int64\<close> when the sum does not fit.
\<close>

definition time_NewTimer :: "world \<Rightarrow> int \<Rightarrow> int" where
  "time_NewTimer wld d =
     (if d \<le> 0 then clock wld
      else if 9223372036854775807 < clock wld - boot wld + d then
        boot wld + 9223372036854775807
      else clock wld + d)"

definition os_MkdirAll :: "world \<Rightarrow> string \<Rightarrow> world \<times> error option" where
  "os_MkdirAll wld path =
     (if write_denied wld path then (wld, Some (OSError PathError))
      else (wld\<lparr>fs := (fs wld)(path := Dir (clock wld) True [])\<rparr>, None))"

definition os_WriteFile :: "world \<Rightarrow> string \<Rightarrow> file_content \<Rightarrow> world \<times> error option" where
  "os_WriteFile wld path data =
     (if write_denied wld path \<or> entryIsDir (fs wld path) then (wld, Some (OSError PathError))
      else (wld\<lparr>fs := (fs wld)(path := File (clock wld) True data)\<rparr>, None))"

text \<open>
  \<^verbatim>\<open>cp.Copy(src, dst, cp.Options{PreserveTimes: true})\<close>: on success \<open>dst\<close> resolves to a
  copy of the tree at \<open>src\<close>, modification times included.
\<close>

definition cp_Copy :: "world \<Rightarrow> string \<Rightarrow> string \<Rightarrow> world \<times> error option" where
  "cp_Copy wld src dst =
     (if 0 < copy_failures wld then
        (wld\<lparr>copy_failures := copy_failures wld - 1, copy_calls := copy_calls wld + 1\<rparr>,
         Some (OSError OtherError))
      else if isl (os_Stat (fs wld src)) then
        (wld\<lparr>copy_calls := copy_calls wld + 1\<rparr>, Some (OSError NotExist))
      else (wld\<lparr>fs := (fs wld)(dst := fs wld src), copy_calls := copy_calls wld + 1\<rparr>, None))"

text \<open>
  \<^verbatim>\<open>json.MarshalIndent\<close> of a list of backups fails when a timestamp is infinite or not a
  number.
\<close>

definition json_MarshalIndent :: "Backup list \<Rightarrow> error + file_content" where
  "json_MarshalIndent metadata =
     (if list_all (\<lambda>backup. f64_finite (Timestamp backup)) metadata then
        Inr (BackupsJSON metadata)
      else Inl UnsupportedValueError)"

subsection \<open>Validation of a configuration\<close>

text \<open>
  The validators append to the aggregate \<^verbatim>\<open>*errs\<close>, which they take and return.
  \<^verbatim>\<open>validateDir\<close> and \<^verbatim>\<open>validateDirOld\<close> may create the directory, so they return the
  world as well.
\<close>

definition validateName :: "string \<Rightarrow> error list \<Rightarrow> error list" where
  "validateName name errs =
     (if name = [] then errs @ [Errorf ''%w: name cannot be empty'' [ArgError ErrorInvalidNameV2]]
      else errs)"

definition validateWaitTime :: "float64 \<Rightarrow> error list \<Rightarrow> error list" where
  "validateWaitTime waitTime errs =
     (if f64_le waitTime (Float 0 0) then
        errs @ [Errorf ''%w: wait time must be at least 0 seconds'' [ArgError ErrorInvalidWaitTime]]
      else errs)"

definition validateDir :: "world \<Rightarrow> string \<Rightarrow> error \<Rightarrow> error list \<Rightarrow> world \<times> error list" where
  "validateDir wld path invalidNameError errs =
     (case os_Stat (fs wld path) of
        Inl NotExist \<Rightarrow>
          (case os_MkdirAll wld path of
             (wld', Some err) \<Rightarrow> (wld', errs @ [err])
           | (wld', None) \<Rightarrow> (wld', errs))
      | Inl PathError \<Rightarrow>
          (wld, errs @ [Errorf ''%w: invalid name: %w''
                          [ArgError invalidNameError, ArgError (OSError PathError)]])
      | Inr info \<Rightarrow>
          if \<not> IsDir info then
            (wld, errs @ [Errorf ''%w: %s exists but is not a directory''
                            [ArgError invalidNameError, ArgString path]])
          else (wld, errs)
      | Inl OtherError \<Rightarrow>
          (wld, errs @ [Errorf ''%w: %w'' [ArgError invalidNameError, ArgError (OSError OtherError)]]))"

definition validateDirOld :: "world \<Rightarrow> string \<Rightarrow> error \<Rightarrow> world \<times> error list" where
  "validateDirOld wld path invalidNameError =
     (case os_Stat (fs wld path) of
        Inl NotExist \<Rightarrow>
          (case os_MkdirAll wld path of
             (wld', Some err) \<Rightarrow> (wld', [err])
           | (wld', None) \<Rightarrow> (wld', []))
      | Inl PathError \<Rightarrow>
          (wld, [Errorf ''%w: invalid name: %w''
                   [ArgError invalidNameError, ArgError (OSError PathError)]])
      | Inr info \<Rightarrow>
          if \<not> IsDir info then
            (wld, [Errorf ''%w: %s exists but is not a directory''
                     [ArgError invalidNameError, ArgString path]])
          else (wld, [])
      | Inl OtherError \<Rightarrow>
          (wld, [Errorf ''%w: %w'' [ArgError invalidNameError, ArgError (OSError OtherError)]]))"

text \<open>The constant \<^verbatim>\<open>1e9\<close> is the \<^verbatim>\<open>float64\<close> of the integer \<open>10 ^ 9\<close>.\<close>

definition validateFolderFormat ::
  "env \<Rightarrow> world \<Rightarrow> float64 \<Rightarrow> string \<Rightarrow> error list \<Rightarrow> world \<times> error list" where
  "validateFolderFormat env wld waitTime folderFormat errs =
     (let seconds = int64 env waitTime;
          nanoseconds = int64 env (f64_mul (f64_sub waitTime (f64_of_int seconds))
                                     (f64_of_int 1000000000));
          format1 = time_Format env folderFormat (time_Unix 0 0);
          format2 = time_Format env folderFormat (time_Unix seconds nanoseconds);
          errs1 = (if format1 = format2 then
                     errs @ [Errorf ''%w: folder format lacks adequate precision for wait time''
                               [ArgError ErrorInvalidFolderFormat]]
                   else errs)
      in validateDir wld folderFormat ErrorInvalidFolderFormat errs1)"

definition validateSourceAndDestination ::
  "env \<Rightarrow> world \<Rightarrow> string \<Rightarrow> string \<Rightarrow> error list \<Rightarrow> world \<times> error list" where
  "validateSourceAndDestination env wld source destination errs =
     (case validateDirOld wld source ErrorInvalidSource of (wld1, e1) \<Rightarrow>
      case validateDirOld wld1 destination ErrorInvalidDestination of (wld2, e2) \<Rightarrow>
      case filepath_Abs env source of (absSource, err1) \<Rightarrow>
      case filepath_Abs env destination of (absDest, err2) \<Rightarrow>
      case filepath_Rel env absSource absDest of (relPath, err3) \<Rightarrow>
      (wld2,
       errs @ e1 @ e2
       @ (case err1 of None \<Rightarrow> []
          | Some err \<Rightarrow> [Errorf ''%w: error getting absolute path: %w''
                          [ArgError ErrorInvalidSource, ArgError err]])
       @ (case err2 of None \<Rightarrow> []
          | Some err \<Rightarrow> [Errorf ''%w: error getting absolute path: %w''
                          [ArgError ErrorInvalidDestination, ArgError err]])
       @ (if absSource = absDest then
            [Errorf ''%w: source and destination paths cannot be the same''
               [ArgError ErrorInvalidSource],
             Errorf ''%w: destination and source paths cannot be the same''
               [ArgError ErrorInvalidDestination]]
          else [])
       @ (case err3 of None \<Rightarrow> []
          | Some err \<Rightarrow>
              [Errorf ''%w: error checking relative path from source to destination: %w''
                 [ArgError ErrorInvalidDestination, ArgError err]])
       @ (if \<not> filepath_IsAbs env relPath \<and> \<not> prefix ''..'' relPath \<and> relPath \<noteq> ''.'' then
            [Errorf ''%w: destination path cannot be inside the source path''
               [ArgError ErrorInvalidDestination]]
          else [])))"


subsection \<open>The watcher\<close>

text \<open>
  An observer is identified by a number (Go compares the interface values for identity).
  \<open>mu\<close> tells whether \<^verbatim>\<open>w.mu\<close> is held by the goroutine that runs the modelled call;
  \<open>fsnotifyWatcher\<close> tells whether the field is not \<^verbatim>\<open>nil\<close>; \<open>backupRequestChan\<close> counts
  the values sent on the channel by \<^verbatim>\<open>createBackupIfBackupIsOutdated\<close>; \<open>backupLoops\<close>
  counts the goroutines that run \<^verbatim>\<open>backupLoop\<close>. \<^verbatim>\<open>stopChan\<close> is created by \<^verbatim>\<open>NewWatcher\<close>
  and nothing in \<^verbatim>\<open>watcher.go\<close> sends on it or closes it, so it has no field and a
  \<^verbatim>\<open>backupLoop\<close> that has started never returns.
\<close>

record Watcher =
  Name :: string
  Source :: string
  Destination :: string
  Enabled :: bool
  WaitTime :: float64
  FolderFormat :: string
  Metadata :: "Backup list"
  mu :: bool
  fsnotifyWatcher :: bool
  customObservers :: "nat list"
  backupRequestChan :: nat
  backupLoops :: nat

text \<open>
  A call that can block has an \<open>outcome\<close>: \<open>Returns s\<close> when it returns in the state \<open>s\<close>,
  and \<open>Hangs s\<close> when it never returns, \<open>s\<close> being the state in which it blocks for ever.
  \<^verbatim>\<open>sync.Mutex\<close> is not reentrant: \<^verbatim>\<open>Lock\<close> on a mutex that the same goroutine holds
  never returns.
\<close>

datatype 'a outcome = Returns 'a | Hangs 'a

fun state_of :: "'a outcome \<Rightarrow> 'a" where
  "state_of (Returns s) = s"
| "state_of (Hangs s) = s"

fun returns :: "'a outcome \<Rightarrow> bool" where
  "returns (Returns s) = True"
| "returns (Hangs s) = False"

definition Lock :: "Watcher \<Rightarrow> Watcher outcome" where
  "Lock w = (if mu w then Hangs w else Returns (w\<lparr>mu := True\<rparr>))"

definition Unlock :: "Watcher \<Rightarrow> Watcher" where
  "Unlock w = w\<lparr>mu := False\<rparr>"

definition metadataJSONPath :: "env \<Rightarrow> Watcher \<Rightarrow> string" where
  "metadataJSONPath env w = filepath_Join env (Destination w) ''metadata.json''"

definition loadMetadata :: "env \<Rightarrow> world \<Rightarrow> Watcher \<Rightarrow> Watcher \<times> error option" where
  "loadMetadata env wld w =
     (case os_ReadFile (fs wld (metadataJSONPath env w)) of
        Inl NotExist \<Rightarrow> (w, None)
      | Inl PathError \<Rightarrow>
          (w, Some (Errorf ''error reading metadata file: %w'' [ArgError (OSError PathError)]))
      | Inl OtherError \<Rightarrow>
          (w, Some (Errorf ''error reading metadata file: %w'' [ArgError (OSError OtherError)]))
      | Inr data \<Rightarrow>
          (case json_Unmarshal env data of
             Inl err \<Rightarrow> (w, Some (Errorf ''error parsing metadata JSON: %w'' [ArgError err]))
           | Inr metadata \<Rightarrow> (w\<lparr>Metadata := metadata\<rparr>, None)))"

definition saveMetadata :: "env \<Rightarrow> world \<Rightarrow> Watcher \<Rightarrow> world \<times> error option" where
  "saveMetadata env wld w =
     (case json_MarshalIndent (Metadata w) of
        Inl err \<Rightarrow> (wld, Some (Errorf ''error marshaling metadata: %w'' [ArgError err]))
      | Inr data \<Rightarrow>
          (case os_WriteFile wld (metadataJSONPath env w) data of
             (wld', Some err) \<Rightarrow>
               (wld', Some (Errorf ''error writing metadata file: %w'' [ArgError err]))
           | (wld', None) \<Rightarrow> (wld', None)))"

definition NewWatcher ::
  "env \<Rightarrow> world \<Rightarrow> string \<Rightarrow> string \<Rightarrow> string \<Rightarrow> float64 \<Rightarrow> string \<Rightarrow> bool
     \<Rightarrow> world \<times> Watcher \<times> error list" where
  "NewWatcher env wld name source destination waitTime folderFormat enabled =
     (let errs1 = validateName name [];
          errs2 = validateWaitTime waitTime errs1
      in case validateFolderFormat env wld waitTime folderFormat errs2 of (wld1, errs3) \<Rightarrow>
        (case validateSourceAndDestination env wld1 source destination errs3 of (wld2, errs4) \<Rightarrow>
        (case loadMetadata env wld2
                \<lparr>Name = name, Source = source, Destination = destination, Enabled = enabled,
                 WaitTime = waitTime, FolderFormat = folderFormat, Metadata = [],
                 mu = False, fsnotifyWatcher = False, customObservers = [],
                 backupRequestChan = 0, backupLoops = 0\<rparr> of
           (w, None) \<Rightarrow> (wld2, w, errs4)
         | (w, Some err) \<Rightarrow>
             (wld2, w, errs4 @ [Errorf ''error loading metadata: %w'' [ArgError err]]))))"

subsection \<open>Observers\<close>

text \<open>
  The callback of an observer is Go code of the caller. What the model keeps of it is
  the sequence of calls it makes on the watcher it is given, \<^verbatim>\<open>AddObserver\<close> and
  \<^verbatim>\<open>RemoveObserver\<close>; the function \<open>cb\<close> gives this sequence for each observer.
\<close>

datatype observer_call = CallAddObserver nat | CallRemoveObserver nat

definition AddObserver :: "Watcher \<Rightarrow> nat \<Rightarrow> Watcher outcome" where
  "AddObserver w observer =
     (case Lock w of
        Hangs w' \<Rightarrow> Hangs w'
      | Returns w1 \<Rightarrow>
          if observer \<in> set (customObservers w1) then Returns (Unlock w1)
          else Returns (Unlock (w1\<lparr>customObservers := customObservers w1 @ [observer]\<rparr>)))"

definition RemoveObserver :: "Watcher \<Rightarrow> nat \<Rightarrow> Watcher outcome" where
  "RemoveObserver w observer =
     (case Lock w of
        Hangs w' \<Rightarrow> Hangs w'
      | Returns w1 \<Rightarrow>
          Returns (Unlock (w1\<lparr>customObservers := remove1 observer (customObservers w1)\<rparr>)))"

fun OnBackupCompletion :: "observer_call list \<Rightarrow> Watcher \<Rightarrow> Watcher outcome" where
  "OnBackupCompletion [] w = Returns w"
| "OnBackupCompletion (CallAddObserver observer # calls) w =
     (case AddObserver w observer of
        Hangs w' \<Rightarrow> Hangs w'
      | Returns w' \<Rightarrow> OnBackupCompletion calls w')"
| "OnBackupCompletion (CallRemoveObserver observer # calls) w =
     (case RemoveObserver w observer of
        Hangs w' \<Rightarrow> Hangs w'
      | Returns w' \<Rightarrow> OnBackupCompletion calls w')"

text \<open>The \<^verbatim>\<open>for _, observer := range observers\<close> loop of \<^verbatim>\<open>notifyObservers\<close>.\<close>

fun notifyEach ::
  "(nat \<Rightarrow> observer_call list) \<Rightarrow> nat list \<Rightarrow> world \<Rightarrow> Watcher \<Rightarrow> (world \<times> Watcher) outcome"
where
  "notifyEach cb [] wld w = Returns (wld, w)"
| "notifyEach cb (observer # observers) wld w =
     (case OnBackupCompletion (cb observer) w of
        Hangs w' \<Rightarrow> Hangs (wld\<lparr>notified := notified wld @ [observer]\<rparr>, w')
      | Returns w' \<Rightarrow>
          notifyEach cb observers (wld\<lparr>notified := notified wld @ [observer]\<rparr>) w')"

definition notifyObservers ::
  "(nat \<Rightarrow> observer_call list) \<Rightarrow> world \<Rightarrow> Watcher \<Rightarrow> (world \<times> Watcher) outcome" where
  "notifyObservers cb wld w =
     (case Lock w of
        Hangs w' \<Rightarrow> Hangs (wld, w')
      | Returns w1 \<Rightarrow>
          (let observers = customObservers w1
           in case notifyEach cb observers wld w1 of
                Hangs s \<Rightarrow> Hangs s
              | Returns (wld', w2) \<Rightarrow> Returns (wld', Unlock w2)))"

subsection \<open>One snapshot attempt\<close>

text \<open>
  \<open>copyLoop n\<close> is the \<^verbatim>\<open>for range 100\<close> loop of \<^verbatim>\<open>createBackup\<close> with \<open>n\<close> iterations
  left; \<^verbatim>\<open>100 * time.Millisecond\<close> is 100000000 nanoseconds.
\<close>

fun copyLoop :: "nat \<Rightarrow> world \<Rightarrow> string \<Rightarrow> string \<Rightarrow> world" where
  "copyLoop 0 wld sourceSnapshot destinationPath = wld"
| "copyLoop (Suc n) wld sourceSnapshot destinationPath =
     (case cp_Copy wld sourceSnapshot destinationPath of
        (wld', Some err) \<Rightarrow> copyLoop n (time_Sleep 100000000 wld') sourceSnapshot destinationPath
      | (wld', None) \<Rightarrow> wld')"

text \<open>
  The timestamp of the record is computed in \<^verbatim>\<open>float64\<close>:
  \<^verbatim>\<open>float64(timestamp.Unix()) + float64(timestamp.Nanosecond())/1e9\<close>.
\<close>

definition createBackup ::
  "env \<Rightarrow> (nat \<Rightarrow> observer_call list) \<Rightarrow> world \<Rightarrow> Watcher \<Rightarrow> (world \<times> Watcher) outcome" where
  "createBackup env cb wld w =
     (case Lock w of
        Hangs w' \<Rightarrow> Hangs (wld, w')
      | Returns w1 \<Rightarrow>
          (let sourceSnapshot = Source w1;
               destinationSnapshot = Destination w1;
               folderFormatSnapshot = FolderFormat w1;
               w2 = Unlock w1;
               timestamp = clock wld;
               timestampFolder = time_Format env folderFormatSnapshot timestamp;
               destinationPath = filepath_Join env destinationSnapshot timestampFolder
           in if \<not> isl (os_Stat (fs wld destinationPath)) then Returns (wld, w2)
              else
                (let wld1 = copyLoop 100 wld sourceSnapshot destinationPath;
                     backup = \<lparr>BackupName = [],
                               Timestamp = f64_add (f64_of_int (Unix timestamp))
                                             (f64_div (f64_of_int (Nanosecond timestamp))
                                                (f64_of_int 1000000000)),
                               Path = timestampFolder,
                               Compressed = False\<rparr>
                 in case Lock w2 of
                      Hangs w' \<Rightarrow> Hangs (wld1, w')
                    | Returns w3 \<Rightarrow>
                        (let w4 = Unlock (w3\<lparr>Metadata := Metadata w3 @ [backup]\<rparr>)
                         in case saveMetadata env wld1 w4 of
                              (wld2, err) \<Rightarrow> notifyObservers cb wld2 w4))))"

subsection \<open>Starting and stopping the watcher\<close>

definition createBackupIfBackupIsOutdated ::
  "env \<Rightarrow> world \<Rightarrow> Watcher \<Rightarrow> Watcher \<times> error option" where
  "createBackupIfBackupIsOutdated env wld w =
     (if length (Metadata w) = 0 then (w\<lparr>backupRequestChan := backupRequestChan w + 1\<rparr>, None)
      else
        (let latestBackupPath =
               filepath_Join env (Destination w) (Path (Metadata w ! (length (Metadata w) - 1)))
         in case doFoldersMatch (fs wld (Source w)) (fs wld latestBackupPath) of
              Inl err \<Rightarrow>
                (w, Some (Errorf ''error comparing source and latest backup: %w'' [ArgError err]))
            | Inr foldersMatch \<Rightarrow>
                if \<not> foldersMatch then (w\<lparr>backupRequestChan := backupRequestChan w + 1\<rparr>, None)
                else (w, None)))"

text \<open>
  \<^verbatim>\<open>go w.backupLoop()\<close> starts one more loop of the kind modelled below.
  \<^verbatim>\<open>go w.startFSNotifyWatcher()\<close> starts a goroutine whose first statement stores the new
  \<^verbatim>\<open>fsnotify\<close> watcher in \<^verbatim>\<open>w.fsnotifyWatcher\<close>, without holding \<^verbatim>\<open>w.mu\<close> and at a moment
  of its own: \<open>fsnotify_NewWatcher\<close> is this statement, and \<^verbatim>\<open>StartWatcher\<close> itself leaves
  the field as it is. The deferred \<^verbatim>\<open>w.mu.Unlock()\<close> runs on every return.
\<close>

definition fsnotify_NewWatcher :: "Watcher \<Rightarrow> Watcher" where
  "fsnotify_NewWatcher w = w\<lparr>fsnotifyWatcher := True\<rparr>"

definition StartWatcher :: "env \<Rightarrow> world \<Rightarrow> Watcher \<Rightarrow> (Watcher \<times> error option) outcome" where
  "StartWatcher env wld w =
     (case Lock w of
        Hangs w' \<Rightarrow> Hangs (w', None)
      | Returns w1 \<Rightarrow>
          if \<not> Enabled w1 then Returns (Unlock w1, Some (New ''watcher is disabled''))
          else if fsnotifyWatcher w1 then
            Returns (Unlock w1, Some (New ''watcher is already running''))
          else
            (case createBackupIfBackupIsOutdated env wld
                    (w1\<lparr>backupLoops := backupLoops w1 + 1\<rparr>) of
               (w2, Some err) \<Rightarrow>
                 Returns (Unlock w2,
                          Some (Errorf ''error checking if backup is up to date: %w''
                                  [ArgError err]))
             | (w2, None) \<Rightarrow> Returns (Unlock w2, None)))"

text \<open>
  \<^verbatim>\<open>StopWatcher\<close> closes the \<^verbatim>\<open>fsnotify\<close> watcher, whose \<^verbatim>\<open>Close\<close> is taken to succeed, and
  clears the field. It does not reach the loops.
\<close>

definition StopWatcher :: "Watcher \<Rightarrow> (Watcher \<times> error option) outcome" where
  "StopWatcher w =
     (case Lock w of
        Hangs w' \<Rightarrow> Hangs (w', None)
      | Returns w1 \<Rightarrow>
          if \<not> fsnotifyWatcher w1 then Returns (Unlock w1, None)
          else Returns (Unlock (w1\<lparr>fsnotifyWatcher := False\<rparr>), None))"

subsection \<open>The two goroutines\<close>

text \<open>
  \<^verbatim>\<open>startFSNotifyWatcher\<close> receives the events of \<^verbatim>\<open>fsnotify\<close>, each given here with the
  instant at which it is received and its \<^verbatim>\<open>Op\<close> bitmask, and sends on
  \<^verbatim>\<open>backupRequestChan\<close> for each event whose \<^verbatim>\<open>Op\<close> is not 0. The result lists the instants
  at which it reaches a send.
\<close>

fun startFSNotifyWatcher :: "(int \<times> nat) list \<Rightarrow> int list" where
  "startFSNotifyWatcher [] = []"
| "startFSNotifyWatcher (event # events) =
     (if snd event \<noteq> 0 then fst event # startFSNotifyWatcher events
      else startFSNotifyWatcher events)"

text \<open>\<^verbatim>\<open>time.Duration(w.WaitTime * float64(time.Second))\<close>, in nanoseconds.\<close>

definition timerDuration :: "env \<Rightarrow> Watcher \<Rightarrow> int" where
  "timerDuration env w = int64 env (f64_mul (WaitTime w) (f64_of_int 1000000000))"

text \<open>
  \<^verbatim>\<open>backupLoop\<close> together with the channel it receives from. The state is the world,
  whose clock is the instant that the loop has reached, the watcher, \<open>timerChan\<close>
  (\<open>None\<close> when it is \<^verbatim>\<open>nil\<close>, otherwise the instant at which the timer fires), \<open>chan\<close>
  (whether the single slot of \<^verbatim>\<open>backupRequestChan\<close> holds a value) and \<open>requests\<close>, the
  instants at which the senders reach the sends that have not completed yet, in order. A
  send completes when it has been reached and the slot is empty; until then the sender is
  blocked, so that no value is dropped and the slot never holds more than one.

  \<open>next_step\<close> tells what happens next when the loop is in its \<^verbatim>\<open>select\<close>: the next send
  completes, at the given instant; the loop receives the value in the slot; the timer case
  is taken, at the given instant; or nothing ever happens. \<open>pick t\<close> is the choice of
  \<^verbatim>\<open>select\<close> when a value and the timer are both ready at the instant \<open>t\<close> (true: the
  value). The case of \<^verbatim>\<open>stopChan\<close> is never ready.
\<close>

datatype step = Waits | SendCompletes int | ReceivesRequest | TimerExpires int

definition next_step :: "(int \<Rightarrow> bool) \<Rightarrow> int \<Rightarrow> int option \<Rightarrow> bool \<Rightarrow> int list \<Rightarrow> step" where
  "next_step pick now timerChan chan requests =
     (if chan then
        (case timerChan of
           None \<Rightarrow> ReceivesRequest
         | Some deadline \<Rightarrow>
             if deadline \<le> now \<and> \<not> pick now then TimerExpires now else ReceivesRequest)
      else
        (case requests of
           [] \<Rightarrow>
             (case timerChan of
                None \<Rightarrow> Waits
              | Some deadline \<Rightarrow> TimerExpires (max now deadline))
         | a # rest \<Rightarrow>
             (case timerChan of
                None \<Rightarrow> SendCompletes (max now a)
              | Some deadline \<Rightarrow>
                  if max now a \<le> max now deadline then SendCompletes (max now a)
                  else TimerExpires (max now deadline))))"

text \<open>
  The result of \<open>backupLoop\<close> is the list of what the loop does, in order, and the state
  it ends in. \<open>Received t\<close>: it receives a request at \<open>t\<close> and arms a new timer.
  \<open>Snapshot t\<close>: it calls \<^verbatim>\<open>createBackup\<close> at \<open>t\<close>, which is the instant that \<^verbatim>\<open>time.Now\<close>
  returns in the call. Receiving and arming the timer take no time; the call of
  \<^verbatim>\<open>createBackup\<close> takes the time that it sleeps and \<open>dur t\<close> on top, for the copying. The
  end is \<open>Returns s\<close> when the loop is back in its \<^verbatim>\<open>select\<close> in the state \<open>s\<close> with no timer
  and nothing left to receive, and \<open>Hangs s\<close> when a call of \<^verbatim>\<open>createBackup\<close> never returns.
\<close>

datatype event = Received int | Snapshot int

function backupLoop ::
  "env \<Rightarrow> (nat \<Rightarrow> observer_call list) \<Rightarrow> (int \<Rightarrow> nat) \<Rightarrow> (int \<Rightarrow> bool) \<Rightarrow> world \<Rightarrow> Watcher
     \<Rightarrow> int option \<Rightarrow> bool \<Rightarrow> int list \<Rightarrow> event list \<times> (world \<times> Watcher) outcome" where
  "backupLoop env cb dur pick wld w timerChan chan requests =
     (case next_step pick (clock wld) timerChan chan requests of
        Waits \<Rightarrow> ([], Returns (wld, w))
      | SendCompletes t \<Rightarrow>
          backupLoop env cb dur pick (wld\<lparr>clock := t\<rparr>) w timerChan True (tl requests)
      | ReceivesRequest \<Rightarrow>
          apfst ((#) (Received (clock wld)))
            (backupLoop env cb dur pick wld w
               (Some (time_NewTimer wld (timerDuration env w))) False requests)
      | TimerExpires t \<Rightarrow>
          (case createBackup env cb (wld\<lparr>clock := t\<rparr>) w of
             Hangs s \<Rightarrow> ([Snapshot t], Hangs s)
           | Returns (wld', w') \<Rightarrow>
               apfst ((#) (Snapshot t))
                 (backupLoop env cb dur pick (wld'\<lparr>clock := clock wld' + int (dur t)\<rparr>) w'
                    None chan requests)))"
  by pat_completeness auto
termination
proof (relation "measure (\<lambda>(env, cb, dur, pick, wld, w, timerChan, chan, requests).
          4 * length requests + (if chan then 2 else 0) + (if timerChan = None then 0 else 1))",
       goal_cases)
  case 1
  then show ?case by simp
next
  case (2 env cb dur pick wld w timerChan chan requests t)
  then show ?case
    by (cases requests) (auto simp: next_step_def split: if_splits option.splits)
next
  case (3 env cb dur pick wld w timerChan chan requests)
  then show ?case
    by (auto simp: next_step_def split: if_splits option.splits list.splits)
next
  case (4 env cb dur pick wld w timerChan chan requests t s wld' w')
  then show ?case
    by (auto simp: next_step_def split: if_splits option.splits list.splits)
qed

declare backupLoop.simps [simp del]

text \<open>The instants of the calls of \<^verbatim>\<open>createBackup\<close> in a list of events.\<close>

fun snapshots :: "event list \<Rightarrow> int list" where
  "snapshots [] = []"
| "snapshots (Received t # events) = snapshots events"
| "snapshots (Snapshot t # events) = t # snapshots events"

text \<open>
  The state in which the loop is back in its \<^verbatim>\<open>select\<close> after the call of \<^verbatim>\<open>createBackup\<close>
  at \<open>t\<close> with the given outcome.
\<close>

fun resume :: "(int \<Rightarrow> nat) \<Rightarrow> int \<Rightarrow> (world \<times> Watcher) outcome \<Rightarrow> (world \<times> Watcher) outcome" where
  "resume dur t (Hangs s) = Hangs s"
| "resume dur t (Returns (wld, w)) = Returns (wld\<lparr>clock := clock wld + int (dur t)\<rparr>, w)"




subsection \<open>A Unix instance of the library functions\<close>

text \<open>
  For the evaluation of examples: \<^verbatim>\<open>path/filepath\<close> on Unix for clean paths, and
  \<^verbatim>\<open>Time.Format\<close> in the zone UTC for the layouts and instants of the table (a layout
  without any element of the reference time is printed as it is).
\<close>

fun components :: "string \<Rightarrow> string \<Rightarrow> string list" where
  "components cur [] = (if cur = [] then [] else [cur])"
| "components cur (c # cs) =
     (if c = CHR ''/'' then (if cur = [] then components [] cs else cur # components [] cs)
      else components (cur @ [c]) cs)"

fun dropCommon :: "string list \<Rightarrow> string list \<Rightarrow> string list \<times> string list" where
  "dropCommon (x # xs) (y # ys) = (if x = y then dropCommon xs ys else (x # xs, y # ys))"
| "dropCommon xs ys = (xs, ys)"

fun joinSlash :: "string list \<Rightarrow> string" where
  "joinSlash [] = []"
| "joinSlash [x] = x"
| "joinSlash (x # y # ys) = x @ ''/'' @ joinSlash (y # ys)"

definition unix_IsAbs :: "string \<Rightarrow> bool" where
  "unix_IsAbs path = prefix ''/'' path"

definition unix_Join :: "string \<Rightarrow> string \<Rightarrow> string" where
  "unix_Join dir name = dir @ ''/'' @ name"

definition unix_Abs :: "string \<Rightarrow> string \<Rightarrow> string \<times> error option" where
  "unix_Abs cwd path = (if unix_IsAbs path then (path, None) else (unix_Join cwd path, None))"

definition unix_Rel :: "string \<Rightarrow> string \<Rightarrow> string \<times> error option" where
  "unix_Rel basepath targpath =
     (case dropCommon (components [] basepath) (components [] targpath) of
        (bs, ts) \<Rightarrow>
          (if bs = [] \<and> ts = [] then ''.'' else joinSlash (replicate (length bs) ''..'' @ ts),
           None))"

definition utc_Format :: "string \<Rightarrow> int \<Rightarrow> string" where
  "utc_Format layout t =
     (if layout = ''2006-01-02_15-04-05.000000'' \<and> t = 0 then ''1970-01-01_00-00-00.000000''
      else if layout = ''2006-01-02_15-04-05.000000'' \<and> t = 1000 then
        ''1970-01-01_00-00-00.000001''
      else if layout = ''2006-01-02_15-04-05.000000'' \<and> t = 1000000000 then
        ''1970-01-01_00-00-01.000000''
      else if layout = ''2006-01-02_15-04-05.000000'' \<and> t = 7000000000 then
        ''1970-01-01_00-00-07.000000''
      else if layout = ''2006-01-02_15-04-05.000000'' \<and> t = 1793560287038047999 then
        ''2026-11-01_19-11-27.038047''
      else if layout = ''2006-01-02_15-04-05.000000'' \<and> t = 1793560287038048000 then
        ''2026-11-01_19-11-27.038048''
      else if layout = ''2006-01-02'' \<and> 0 \<le> t \<and> t < 86400000000000 then ''1970-01-01''
      else if layout = ''05'' \<and> t = 0 then ''00''
      else if layout = ''05'' \<and> (t = 1000000000 \<or> t = 61000000000) then ''01''
      else layout)"

text \<open>
  \<^verbatim>\<open>json.Unmarshal\<close> for the documents of the examples, whose strings are plain ASCII: a
  document written by \<^verbatim>\<open>json.MarshalIndent\<close> gives back the list it was written for, the
  bytes \<^verbatim>\<open>[{}]\<close> give one record with empty fields, and the other bytes used are no JSON.
  A conversion to \<^verbatim>\<open>int64\<close> that does not fit gives the smallest \<^verbatim>\<open>int64\<close>, as on amd64.
\<close>

fun ascii_Unmarshal :: "file_content \<Rightarrow> error + Backup list" where
  "ascii_Unmarshal (BackupsJSON metadata) = Inr metadata"
| "ascii_Unmarshal (Raw bytes) =
     (if bytes = ''[{}]'' then
        Inr [\<lparr>BackupName = [], Timestamp = Float 0 0, Path = [], Compressed = False\<rparr>]
      else Inl SyntaxError)"

definition unix_env :: env where
  "unix_env =
     \<lparr>time_Format = utc_Format, filepath_Join = unix_Join,
      filepath_Abs = unix_Abs ''/home/user'', filepath_Rel = unix_Rel,
      filepath_IsAbs = unix_IsAbs, json_Unmarshal = ascii_Unmarshal,
      int64_unrepresentable = (\<lambda>x. - 9223372036854775808)\<rparr>"

subsection \<open>Example values\<close>

text \<open>
  The watcher that \<^verbatim>\<open>main\<close> creates (wait time 1 second, the default layout) and the same
  watcher once \<^verbatim>\<open>StartWatcher\<close> has returned and its two goroutines run; copying that
  takes 5 seconds, a tenth of a second and 59 seconds; and a \<^verbatim>\<open>select\<close> that takes the
  request at a tie.
\<close>

definition example_watcher :: Watcher where
  "example_watcher =
     \<lparr>Name = ''Main Watcher'', Source = ''/src'', Destination = ''/dst'', Enabled = True,
      WaitTime = Float 1 0, FolderFormat = ''2006-01-02_15-04-05.000000'', Metadata = [],
      mu = False, fsnotifyWatcher = False, customObservers = [], backupRequestChan = 0,
      backupLoops = 0\<rparr>"

definition started_watcher :: Watcher where
  "started_watcher =
     example_watcher\<lparr>fsnotifyWatcher := True, backupRequestChan := 1, backupLoops := 1\<rparr>"

definition five_seconds :: "int \<Rightarrow> nat" where
  "five_seconds t = 5000000000"


definition fifty_nine_seconds :: "int \<Rightarrow> nat" where
  "fifty_nine_seconds t = 59000000000"

definition request_first :: "int \<Rightarrow> bool" where
  "request_first t = True"

text \<open>
  Callbacks that make no call on the watcher, and callbacks that remove and add their own
  observer again.
\<close>

definition no_calls :: "nat \<Rightarrow> observer_call list" where
  "no_calls observer = []"

definition reregister :: "nat \<Rightarrow> observer_call list" where
  "reregister observer = [CallRemoveObserver observer, CallAddObserver observer]"

text \<open>
  A world one second after the epoch in which the source holds one file and the
  destination is empty; the same world at the epoch; with the metadata file not writable;
  with the target folder of its instant already there. \<open>seven\<close> is the example watcher
  with observer 7 registered.
\<close>

definition example_world :: world where
  "example_world =
     \<lparr>fs = (\<lambda>path. if path = ''/src'' then Dir 0 True [(''a.txt'', File 5 True (Raw ''hello''))]
                  else if path = ''/dst'' then Dir 0 True []
                  else NoNode NotExist),
      write_denied = (\<lambda>path. False), copy_failures = 0, copy_calls = 0,
      clock = 1000000000, boot = 0, notified = []\<rparr>"

definition epoch_world :: world where
  "epoch_world = example_world\<lparr>clock := 0\<rparr>"

definition readonly_world :: world where
  "readonly_world = example_world\<lparr>write_denied := (\<lambda>path. path = ''/dst/metadata.json'')\<rparr>"

definition occupied_world :: world where
  "occupied_world =
     example_world\<lparr>fs := (fs example_world)(''/dst/1970-01-01_00-00-01.000000'' := Dir 0 True [])\<rparr>"

definition seven :: Watcher where
  "seven = example_watcher\<lparr>customObservers := [7]\<rparr>"

text \<open>
  The example watcher restarted with one backup in its history, in a world where the
  folder of that backup holds a copy of the source; and a world in which the working
  directory holds a regular file named like the default layout.
\<close>

definition restarted_watcher :: Watcher where
  "restarted_watcher =
     example_watcher\<lparr>Metadata := [\<lparr>BackupName = [], Timestamp = Float 0 0,
                                    Path = ''1970-01-01_00-00-00.000000'', Compressed = False\<rparr>]\<rparr>"

definition backed_up_world :: world where
  "backed_up_world =
     example_world\<lparr>fs := (fs example_world)
                             (''/dst/1970-01-01_00-00-00.000000'' := fs example_world ''/src'')\<rparr>"

definition clashing_world :: world where
  "clashing_world =
     example_world\<lparr>fs := (fs example_world)
                             (''2006-01-02_15-04-05.000000'' := File 0 True (Raw []))\<rparr>"

text \<open>
  The started watcher with a layout that prints the seconds within the minute only, which
  \<^verbatim>\<open>NewWatcher\<close> accepts with a wait time of one second.
\<close>

definition seconds_watcher :: Watcher where
  "seconds_watcher = started_watcher\<lparr>FolderFormat := ''05''\<rparr>"

section \<open>Properties\<close>

subsection \<open>The tree comparator\<close>

lemma doFilesMatch_True: "doFilesMatch a b = Inr True \<longleftrightarrow> spec_files_equal a b"
  by (cases a; cases b) (auto simp: doFilesMatch_def)

lemma doFoldersMatch_Dir:
  "doFoldersMatch (Dir ma True as) (Dir mb True bs) =
     (if length as \<noteq> length bs then Inr False else matchEntries as bs)"
  by (simp add: doFoldersMatch.simps)

lemma doFoldersMatch_not_listable:
  "isl (os_ReadDir a) \<or> isl (os_ReadDir b) \<Longrightarrow> isl (doFoldersMatch a b)"
  by (auto simp: doFoldersMatch.simps split: sum.splits)

lemma spec_trees_match_listable:
  "spec_trees_match a b \<Longrightarrow> \<exists>ma as mb bs. a = Dir ma True as \<and> b = Dir mb True bs"
  by (cases a; cases b) auto

lemma doFoldersMatch_True:
  "doFoldersMatch a b = Inr True \<longleftrightarrow> spec_trees_match a b"
  "length as = length bs \<Longrightarrow>
     (matchEntries as bs = Inr True \<longleftrightarrow>
      list_all2 (\<lambda>a b. fst a = fst b \<and> entryIsDir (snd a) = entryIsDir (snd b) \<and>
                  (if entryIsDir (snd a) then spec_trees_match (snd a) (snd b)
                   else spec_files_equal (snd a) (snd b))) as bs)"
proof (induction a b and as bs rule: doFoldersMatch_matchEntries.induct)
  case (1 source destination)
  show ?case
  proof (cases "\<exists>ma as mb bs. source = Dir ma True as \<and> destination = Dir mb True bs")
    case True
    then obtain ma as mb bs where sd: "source = Dir ma True as" "destination = Dir mb True bs"
      by blast
    show ?thesis
    proof (cases "length as = length bs")
      case True
      with 1 [of as bs] sd show ?thesis by (simp add: doFoldersMatch_Dir)
    next
      case False
      with sd show ?thesis by (simp add: doFoldersMatch_Dir)
    qed
  next
    case False
    then have "\<not> spec_trees_match source destination"
      using spec_trees_match_listable by blast
    moreover from False have "isl (os_ReadDir source) \<or> isl (os_ReadDir destination)"
      by (cases source; cases destination) auto
    then have "isl (doFoldersMatch source destination)"
      by (rule doFoldersMatch_not_listable)
    then have "doFoldersMatch source destination \<noteq> Inr True" by auto
    ultimately show ?thesis by simp
  qed
next
  case (2 destEntries)
  then show ?case by simp
next
  case (3 sourceEntry sourceEntries)
  then show ?case by simp
next
  case (4 sourceEntry sourceEntries destinationEntry destEntries)
  from 4(4) have len: "length sourceEntries = length destEntries" by simp
  show ?case
  proof (cases "fst sourceEntry = fst destinationEntry")
    case False
    then show ?thesis by simp
  next
    case name: True
    show ?thesis
    proof (cases "entryIsDir (snd sourceEntry)")
      case sdir: True
      show ?thesis
      proof (cases "entryIsDir (snd destinationEntry)")
        case ddir: True
        from 4(1) name sdir ddir
        have sub: "(doFoldersMatch (snd sourceEntry) (snd destinationEntry) = Inr True) =
                   spec_trees_match (snd sourceEntry) (snd destinationEntry)" by simp
        show ?thesis
        proof (cases "doFoldersMatch (snd sourceEntry) (snd destinationEntry)")
          case (Inl e)
          with sub name sdir ddir show ?thesis by simp
        next
          case (Inr m)
          show ?thesis
          proof (cases m)
            case True
            with 4(2) [of m] Inr name sdir ddir len sub show ?thesis by simp
          next
            case False
            with Inr name sdir ddir sub show ?thesis by simp
          qed
        qed
      next
        case False
        with name sdir show ?thesis by simp
      qed
    next
      case sfile: False
      show ?thesis
      proof (cases "entryIsDir (snd destinationEntry)")
        case True
        with name sfile show ?thesis by simp
      next
        case dfile: False
        have sub: "(doFilesMatch (snd sourceEntry) (snd destinationEntry) = Inr True) =
                   spec_files_equal (snd sourceEntry) (snd destinationEntry)"
          by (rule doFilesMatch_True)
        show ?thesis
        proof (cases "doFilesMatch (snd sourceEntry) (snd destinationEntry)")
          case (Inl e)
          with sub name sfile dfile show ?thesis by simp
        next
          case (Inr m)
          show ?thesis
          proof (cases m)
            case True
            with 4(3) [of m] Inr name sfile dfile len sub show ?thesis by simp
          next
            case False
            with Inr name sfile dfile sub show ?thesis by simp
          qed
        qed
      qed
    qed
  qed
qed

text \<open>
  C7. The tree comparator returns \<open>true\<close> exactly when the two trees match as the
  specification describes (both listings succeed, equal entry counts, and at every
  position equal names, equal kinds, matching subdirectories, and files with equal bytes
  and equal modification times); a result without error is the truth value of that
  relation; and the comparison fails with an error if either path cannot be listed.
\<close>

text \<open>
  C7. The tree comparator returns \<open>true\<close> exactly when the two trees match as the
  specification describes (both listings succeed, equal entry counts, and at every
  position equal names, equal kinds, matching subdirectories, and files with equal bytes
  and equal modification times); a result without error is the truth value of that
  relation; and the comparison fails with an error if either path cannot be listed.
\<close>

theorem doFoldersMatch_refines_spec:
  "(doFoldersMatch a b = Inr True \<longleftrightarrow> spec_trees_match a b) \<and>
   (\<forall>m. doFoldersMatch a b = Inr m \<longrightarrow> m = spec_trees_match a b) \<and>
   (isl (os_ReadDir a) \<or> isl (os_ReadDir b) \<longrightarrow> isl (doFoldersMatch a b))"
proof (intro conjI allI impI)
  show "doFoldersMatch a b = Inr True \<longleftrightarrow> spec_trees_match a b"
    by (rule doFoldersMatch_True(1))
next
  fix m
  assume "doFoldersMatch a b = Inr m"
  then show "m = spec_trees_match a b"
    using doFoldersMatch_True(1) [of a b] by (cases m) auto
next
  assume "isl (os_ReadDir a) \<or> isl (os_ReadDir b)"
  then show "isl (doFoldersMatch a b)"
    by (rule doFoldersMatch_not_listable)
qed

theorem doFoldersMatch_refines_spec_witness:
  "doFoldersMatch
     (Dir 7 True [(''d'', Dir 1 True []), (''f'', File 5 True (Raw ''x''))])
     (Dir 9 True [(''d'', Dir 2 True []), (''f'', File 5 True (Raw ''x''))]) = Inr True \<and>
   doFoldersMatch
     (Dir 7 True [(''f'', File 5 True (Raw ''x''))])
     (Dir 9 True [(''f'', File 6 True (Raw ''x''))]) = Inr False \<and>
   isl (os_ReadDir (NoNode NotExist)) \<and>
   isl (doFoldersMatch (NoNode NotExist) (Dir 9 True []))"
proof -
  have "doFoldersMatch
     (Dir 7 True [(''f'', File 5 True (Raw ''x''))])
     (Dir 9 True [(''f'', File 6 True (Raw ''x''))]) = Inr False"
    by (simp add: doFoldersMatch_Dir doFilesMatch_def)
  then show ?thesis
    using doFoldersMatch_refines_spec
            [of "Dir 7 True [(''d'', Dir 1 True []), (''f'', File 5 True (Raw ''x''))]"
                "Dir 9 True [(''d'', Dir 2 True []), (''f'', File 5 True (Raw ''x''))]"]
          doFoldersMatch_refines_spec [of "NoNode NotExist" "Dir 9 True []"]
    by simp
qed

subsection \<open>Arithmetic in \<^verbatim>\<open>float64\<close>\<close>

text \<open>
  A positive integer \<open>s\<close> up to \<open>4 * 10 ^ 9\<close> and its product with \<open>10 ^ 9\<close> have at most
  53 binary digits, so for a wait time of \<open>s\<close> whole seconds the conversions and the
  product that the program computes are exact.
\<close>

lemma bits_bound: "n < 2 ^ k \<Longrightarrow> bits n \<le> int k"
proof (induction k arbitrary: n)
  case 0
  then show ?case by (subst bits.simps) simp
next
  case (Suc k)
  show ?case
  proof (cases "n \<le> 0")
    case True
    then show ?thesis by (subst bits.simps) simp
  next
    case False
    from Suc.prems have "n div 2 < 2 ^ k" by simp
    from Suc.IH [OF this] False show ?thesis by (subst bits.simps) simp
  qed
qed

lemma f64_trunc_norm:
  "0 \<le> e \<Longrightarrow> - 9223372036854775808 \<le> m * 2 ^ nat e \<Longrightarrow> m * 2 ^ nat e \<le> 9223372036854775807 \<Longrightarrow>
   f64_trunc (f64_norm m e) = Some (m * 2 ^ nat e)"
proof (induction m e rule: f64_norm.induct)
  case (1 m e)
  show ?case
  proof (cases "m = 0")
    case True
    then show ?thesis by (subst f64_norm.simps) simp
  next
    case nz: False
    show ?thesis
    proof (cases "even m")
      case True
      then have half: "m div 2 * 2 ^ nat (e + 1) = m * 2 ^ nat e"
        using 1(2) by (auto simp: nat_add_distrib elim: evenE)
      from 1(1) [OF nz True] 1(2,3,4) half
      have "f64_trunc (f64_norm (m div 2) (e + 1)) = Some (m * 2 ^ nat e)" by simp
      with nz True show ?thesis by (subst f64_norm.simps) simp
    next
      case False
      with nz 1(2,3,4) show ?thesis by (subst f64_norm.simps) simp
    qed
  qed
qed

lemma f64_round_exact:
  assumes "M \<noteq> 0" and "\<bar>M\<bar> < 2 ^ 53" and "0 \<le> E" and "E \<le> 900"
  shows "f64_round M E = f64_norm M E"
proof -
  have "bits \<bar>M\<bar> \<le> 53" using bits_bound [OF assms(2)] by simp
  with assms show ?thesis by (simp add: f64_round_def Let_def)
qed

lemma f64_norm_Float:
  "m \<noteq> 0 \<Longrightarrow> 0 \<le> e \<Longrightarrow>
   \<exists>m' e'. f64_norm m e = Float m' e' \<and> m' \<noteq> 0 \<and> 0 \<le> e' \<and> m' * 2 ^ nat e' = m * 2 ^ nat e"
proof (induction m e rule: f64_norm.induct)
  case (1 m e)
  show ?case
  proof (cases "even m")
    case True
    then have half: "m div 2 * 2 ^ nat (e + 1) = m * 2 ^ nat e"
      using 1(3) by (auto simp: nat_add_distrib elim: evenE)
    from True 1(2) have "m div 2 \<noteq> 0" by (auto elim: evenE)
    from 1(1) [OF 1(2) True this] 1(3) half 1(2) True show ?thesis
      by (subst f64_norm.simps) auto
  next
    case False
    with 1(2,3) show ?thesis by (subst f64_norm.simps) auto
  qed
qed

lemma billion: "f64_of_int 1000000000 = Float 1953125 9"
  by code_simp

lemma whole_seconds:
  assumes "0 < s" and "s \<le> 4000000000"
  shows "int64 env (f64_of_int s) = s"
    and "int64 env (f64_mul (f64_of_int s) (f64_of_int 1000000000)) = s * 1000000000"
    and "f64_sub (f64_of_int s) (f64_of_int s) = Float 0 0"
proof -
  have s: "f64_of_int s = f64_norm s 0"
    using assms by (simp add: f64_of_int_def f64_round_exact)
  show "int64 env (f64_of_int s) = s"
    using assms f64_trunc_norm [of 0 s] by (simp add: int64_def s)
  from f64_norm_Float [of s 0] assms obtain m e
    where me: "f64_norm s 0 = Float m e" "m \<noteq> 0" "0 \<le> e" "m * 2 ^ nat e = s"
    by auto
  have pow: "(1::int) \<le> 2 ^ nat e" by simp
  have "0 < m * 2 ^ nat e" using me(4) assms(1) by simp
  then have m_pos: "0 < m" by (simp add: zero_less_mult_iff)
  then have abs_s: "\<bar>m\<bar> * 2 ^ nat e = s" using me(4) by simp
  have "\<bar>m\<bar> * 1 \<le> \<bar>m\<bar> * 2 ^ nat e" using pow by (intro mult_left_mono) simp_all
  with abs_s have m_le: "\<bar>m\<bar> \<le> s" by simp
  have "2 ^ nat e * 1 \<le> (2 ^ nat e :: int) * \<bar>m\<bar>" using me(2) by (intro mult_left_mono) simp_all
  with abs_s have "(2::int) ^ nat e \<le> s" by (simp add: mult.commute)
  with assms(2) have "(2::int) ^ nat e < 2 ^ 32" by simp
  then have "nat e < 32" by (simp only: power_strict_increasing_iff) 
  then have e_le: "e \<le> 31" by simp
  have prod_small: "\<bar>m * 1953125\<bar> < 2 ^ 53"
    using m_le assms(2) by (simp add: abs_mult)
  have "f64_mul (f64_of_int s) (f64_of_int 1000000000) = f64_round (m * 1953125) (e + 9)"
    by (simp add: s me(1) billion)
  also have "\<dots> = f64_norm (m * 1953125) (e + 9)"
    using me(2,3) prod_small e_le by (intro f64_round_exact) simp_all
  finally have mul: "f64_mul (f64_of_int s) (f64_of_int 1000000000)
                     = f64_norm (m * 1953125) (e + 9)" .
  have product: "m * 1953125 * 2 ^ nat (e + 9) = s * 1000000000"
    using me(3,4) by (simp add: nat_add_distrib power_add flip: me(4))
  show "int64 env (f64_mul (f64_of_int s) (f64_of_int 1000000000)) = s * 1000000000"
    using f64_trunc_norm [of "e + 9" "m * 1953125"] me(3) assms
    unfolding mul int64_def product by simp
  show "f64_sub (f64_of_int s) (f64_of_int s) = Float 0 0"
    by (simp add: s me(1) f64_sub_def f64_round_def)
qed

lemma time_Unix_whole_seconds:
  "0 \<le> s \<Longrightarrow> s \<le> 4000000000 \<Longrightarrow> time_Unix s 0 = s * 1000000000"
  by (simp add: time_Unix_def wrap64_def)

text \<open>
  The values of the examples: a wait time of one second and of no time; the \<^verbatim>\<open>float64\<close>
  nearest to \<open>10 ^ - 6\<close>, which is below \<open>10 ^ - 6\<close> and for which the program computes 1000
  nanoseconds; and the timestamps of the instants used below.
\<close>

lemma whole_second:
  "\<not> f64_le (Float 1 0) (Float 0 0)"
  "time_Unix 0 0 = 0"
  "time_Unix (int64 unix_env (Float 1 0))
     (int64 unix_env (f64_mul (f64_sub (Float 1 0) (f64_of_int (int64 unix_env (Float 1 0))))
                        (f64_of_int 1000000000))) = 1000000000"
  "time_Format unix_env ''2006-01-02_15-04-05.000000'' 0 = ''1970-01-01_00-00-00.000000''"
  "time_Format unix_env ''2006-01-02_15-04-05.000000'' 1000000000 = ''1970-01-01_00-00-01.000000''"
  "time_Format unix_env ''2006-01-02'' 0 = ''1970-01-01''"
  "time_Format unix_env ''2006-01-02'' 1000000000 = ''1970-01-01''"
  "time_Format unix_env ''05'' 0 = ''00''"
  "time_Format unix_env ''05'' 1000000000 = ''01''"
  by code_simp+

lemma zero_wait:
  "f64_le (Float 0 0) (Float 0 0)"
  "time_Unix (int64 unix_env (Float 0 0))
     (int64 unix_env (f64_mul (f64_sub (Float 0 0) (f64_of_int (int64 unix_env (Float 0 0))))
                        (f64_of_int 1000000000))) = 0"
  by code_simp+

lemma microsecond:
  "time_Unix (int64 unix_env (Float 4722366482869645 (- 72)))
     (int64 unix_env
        (f64_mul (f64_sub (Float 4722366482869645 (- 72))
                    (f64_of_int (int64 unix_env (Float 4722366482869645 (- 72)))))
           (f64_of_int 1000000000))) = 1000"
  "\<not> f64_le (Float 4722366482869645 (- 72)) (Float 0 0)"
  "time_Format unix_env ''2006-01-02_15-04-05.000000'' 1000 = ''1970-01-01_00-00-00.000001''"
  "f64_real (Float 4722366482869645 (- 72)) * 1000000000 < 1000"
  by code_simp+

lemma example_timestamp:
  "f64_add (f64_of_int (Unix 1000000000))
     (f64_div (f64_of_int (Nanosecond 1000000000)) (f64_of_int 1000000000)) = Float 1 0"
  by code_simp

lemma november_timestamps:
  "f64_add (f64_of_int (Unix 1793560287038047999))
     (f64_div (f64_of_int (Nanosecond 1793560287038047999)) (f64_of_int 1000000000))
   = Float 7522737086164833 (- 22)"
  "f64_add (f64_of_int (Unix 1793560287038048000))
     (f64_div (f64_of_int (Nanosecond 1793560287038048000)) (f64_of_int 1000000000))
   = Float 7522737086164833 (- 22)"
  by code_simp+

lemma example_duration:
  "int64 unix_env (f64_mul (WaitTime started_watcher) (f64_of_int 1000000000)) = 1000000000"
  "int64 unix_env (f64_mul (WaitTime seconds_watcher) (f64_of_int 1000000000)) = 1000000000"
  by code_simp+

text \<open>
  The arithmetic rounds as IEEE 754 does: \<open>0.1 + 0.2\<close> is the \<^verbatim>\<open>float64\<close> above \<open>0.3\<close>, a
  quotient is rounded to 53 binary digits, an integer above \<open>2 ^ 53\<close> goes to the nearest
  even significand, half of the least subnormal is zero, and the double of \<open>2 ^ 1023\<close> is
  infinite.
\<close>

lemma f64_examples:
  "f64_add (Float 3602879701896397 (- 55)) (Float 3602879701896397 (- 54))
     = Float 1351079888211149 (- 52)"
  "f64_div (Float 1 0) (Float 3 0) = Float 6004799503160661 (- 54)"
  "f64_of_int (2 ^ 53 + 1) = Float 1 53"
  "f64_of_int (2 ^ 53 + 3) = Float 2251799813685249 2"
  "f64_div (Float 1 (- 1074)) (Float 1 1) = Float 0 0"
  "f64_mul (Float 1 1023) (Float 1 1) = PosInf"
  by code_simp+

text \<open>
  The duration of the timer at two wait times that are not small whole numbers of
  seconds. For the \<^verbatim>\<open>float64\<close> nearest to \<open>0.3\<close> it is 300000000 nanoseconds. A wait time
  of \<open>10 ^ 10\<close> seconds is positive, so \<^verbatim>\<open>validateWaitTime\<close> accepts it, but its product
  with \<open>10 ^ 9\<close> is beyond \<^verbatim>\<open>int64\<close>: on amd64 the duration is the least \<^verbatim>\<open>int64\<close>, and a
  timer of that duration fires at once.
\<close>

lemma timerDuration_examples:
  "timerDuration unix_env (started_watcher\<lparr>WaitTime := Float 5404319552844595 (- 54)\<rparr>)
     = 300000000"
  "f64_of_int 10000000000 = Float 9765625 10"
  "\<not> f64_le (Float 9765625 10) (Float 0 0)"
  "timerDuration unix_env (started_watcher\<lparr>WaitTime := Float 9765625 10\<rparr>)
     = - 9223372036854775808"
  "time_NewTimer epoch_world (- 9223372036854775808) = clock epoch_world"
  by code_simp+

subsection \<open>Observers\<close>

lemma OnBackupCompletion_locked:
  "mu w \<Longrightarrow> OnBackupCompletion calls w = (if calls = [] then Returns w else Hangs w)"
proof (cases calls)
  case Nil
  then show ?thesis by simp
next
  case (Cons c cs)
  assume "mu w"
  with Cons show ?thesis
    by (cases c) (simp_all add: AddObserver_def RemoveObserver_def Lock_def)
qed

lemma notifyEach_locked:
  "mu w \<Longrightarrow> notifyEach cb observers wld w =
     (if \<forall>observer\<in>set observers. cb observer = []
      then Returns (wld\<lparr>notified := notified wld @ observers\<rparr>, w)
      else Hangs (wld\<lparr>notified := notified wld @ takeWhile (\<lambda>observer. cb observer = []) observers
                                  @ take 1 (dropWhile (\<lambda>observer. cb observer = []) observers)\<rparr>,
                  w))"
  by (induction observers arbitrary: wld) (auto simp: OnBackupCompletion_locked)

lemma notifyObservers_eq:
  "notifyObservers cb wld w =
     (if mu w then Hangs (wld, w)
      else if \<forall>observer\<in>set (customObservers w). cb observer = []
      then Returns (wld\<lparr>notified := notified wld @ customObservers w\<rparr>, w\<lparr>mu := False\<rparr>)
      else Hangs (wld\<lparr>notified := notified wld
                        @ takeWhile (\<lambda>observer. cb observer = []) (customObservers w)
                        @ take 1 (dropWhile (\<lambda>observer. cb observer = []) (customObservers w))\<rparr>,
                  w\<lparr>mu := True\<rparr>))"
  by (simp add: notifyObservers_def Lock_def Unlock_def notifyEach_locked Let_def)

subsection \<open>One snapshot attempt\<close>

lemma copyLoop_frame:
  "notified (copyLoop n wld s d) = notified wld \<and>
   write_denied (copyLoop n wld s d) = write_denied wld \<and>
   boot (copyLoop n wld s d) = boot wld"
  by (induction n arbitrary: wld) (auto simp: cp_Copy_def time_Sleep_def)

lemma copyLoop_effect:
  "copy_calls wld \<le> copy_calls (copyLoop n wld s d) \<and>
   copy_calls (copyLoop n wld s d) \<le> copy_calls wld + n \<and>
   (0 < n \<longrightarrow> copy_calls wld < copy_calls (copyLoop n wld s d)) \<and>
   ((copy_calls wld < copy_calls (copyLoop n wld s d) \<and>
     clock (copyLoop n wld s d)
       = clock wld + 100000000 * int (copy_calls (copyLoop n wld s d) - copy_calls wld - 1)) \<or>
    (copy_calls (copyLoop n wld s d) = copy_calls wld + n \<and>
     clock (copyLoop n wld s d) = clock wld + 100000000 * int n))"
proof (induction n arbitrary: wld)
  case 0
  then show ?case by simp
next
  case (Suc n)
  show ?case
  proof (cases "snd (cp_Copy wld s d)")
    case None
    then have "copyLoop (Suc n) wld s d = fst (cp_Copy wld s d)"
      by (cases "cp_Copy wld s d") simp
    moreover from None have "copy_calls (fst (cp_Copy wld s d)) = copy_calls wld + 1"
      and "clock (fst (cp_Copy wld s d)) = clock wld"
      by (auto simp: cp_Copy_def split: if_splits)
    ultimately show ?thesis by simp
  next
    case (Some err)
    let ?wld' = "time_Sleep 100000000 (fst (cp_Copy wld s d))"
    from Some have step: "copyLoop (Suc n) wld s d = copyLoop n ?wld' s d"
      by (cases "cp_Copy wld s d") simp
    have calls: "copy_calls ?wld' = copy_calls wld + 1"
      and clk: "clock ?wld' = clock wld + 100000000"
      by (auto simp: cp_Copy_def time_Sleep_def split: if_splits)
    from Suc.IH [of ?wld'] show ?thesis
      unfolding step calls clk by (auto simp: algebra_simps)
  qed
qed

lemma copyLoop_calls:
  "\<not> isl (os_Stat (fs wld s)) \<Longrightarrow>
   copy_calls (copyLoop n wld s d) = copy_calls wld + min n (copy_failures wld + 1)"
proof (induction n arbitrary: wld)
  case 0
  then show ?case by simp
next
  case (Suc n)
  show ?case
  proof (cases "0 < copy_failures wld")
    case True
    let ?wld' = "time_Sleep 100000000
                   (wld\<lparr>copy_failures := copy_failures wld - 1, copy_calls := copy_calls wld + 1\<rparr>)"
    from True have step: "copyLoop (Suc n) wld s d = copyLoop n ?wld' s d"
      by (simp add: cp_Copy_def)
    have "\<not> isl (os_Stat (fs ?wld' s))" using Suc.prems by (simp add: time_Sleep_def)
    from Suc.IH [OF this] True show ?thesis
      unfolding step by (simp add: time_Sleep_def)
  next
    case False
    with Suc.prems show ?thesis by (simp add: cp_Copy_def)
  qed
qed

lemma copyLoop_succeeds_at_once:
  "0 < n \<Longrightarrow> copy_failures wld = 0 \<Longrightarrow> \<not> isl (os_Stat (fs wld s)) \<Longrightarrow>
   copyLoop n wld s d = wld\<lparr>fs := (fs wld)(d := fs wld s), copy_calls := copy_calls wld + 1\<rparr>"
  by (cases n) (simp_all add: cp_Copy_def)

lemma saveMetadata_eq:
  "saveMetadata env wld w =
     (if isl (json_MarshalIndent (Metadata w)) then
        (wld, Some (Errorf ''error marshaling metadata: %w'' [ArgError UnsupportedValueError]))
      else if write_denied wld (metadataJSONPath env w)
              \<or> entryIsDir (fs wld (metadataJSONPath env w))
      then (wld, Some (Errorf ''error writing metadata file: %w'' [ArgError (OSError PathError)]))
      else (wld\<lparr>fs := (fs wld)(metadataJSONPath env w :=
                           File (clock wld) True (BackupsJSON (Metadata w)))\<rparr>, None))"
  by (simp add: saveMetadata_def json_MarshalIndent_def os_WriteFile_def)

lemma saveMetadata_frame:
  "notified (fst (saveMetadata env wld w)) = notified wld \<and>
   clock (fst (saveMetadata env wld w)) = clock wld \<and>
   boot (fst (saveMetadata env wld w)) = boot wld \<and>
   copy_calls (fst (saveMetadata env wld w)) = copy_calls wld"
  by (simp add: saveMetadata_eq)

lemma metadataJSONPath_update:
  "metadataJSONPath env (w\<lparr>Metadata := metadata, mu := locked\<rparr>) = metadataJSONPath env w"
  by (simp add: metadataJSONPath_def)

lemma createBackup_eq:
  "createBackup env cb wld w =
     (if mu w then Hangs (wld, w)
      else if \<not> isl (os_Stat (fs wld (filepath_Join env (Destination w)
                                        (time_Format env (FolderFormat w) (clock wld)))))
      then Returns (wld, w\<lparr>mu := False\<rparr>)
      else
        notifyObservers cb
          (fst (saveMetadata env
                  (copyLoop 100 wld (Source w)
                     (filepath_Join env (Destination w)
                        (time_Format env (FolderFormat w) (clock wld))))
                  (w\<lparr>Metadata := Metadata w @
                        [\<lparr>BackupName = [],
                          Timestamp = f64_add (f64_of_int (Unix (clock wld)))
                                        (f64_div (f64_of_int (Nanosecond (clock wld)))
                                           (f64_of_int 1000000000)),
                          Path = time_Format env (FolderFormat w) (clock wld),
                          Compressed = False\<rparr>],
                     mu := False\<rparr>)))
          (w\<lparr>Metadata := Metadata w @
                [\<lparr>BackupName = [],
                  Timestamp = f64_add (f64_of_int (Unix (clock wld)))
                                (f64_div (f64_of_int (Nanosecond (clock wld)))
                                   (f64_of_int 1000000000)),
                  Path = time_Format env (FolderFormat w) (clock wld),
                  Compressed = False\<rparr>],
             mu := False\<rparr>))"
  by (simp add: createBackup_def Lock_def Unlock_def Let_def split: prod.splits)


lemma createBackup_keeps:
  assumes "createBackup env cb wld w = Returns (wld', w')"
  shows "WaitTime w' = WaitTime w \<and> boot wld' = boot wld \<and> backupLoops w' = backupLoops w"
  using assms copyLoop_frame [of 100 wld "Source w"]
  by (auto simp: createBackup_eq notifyObservers_eq saveMetadata_frame split: if_splits)

lemma createBackup_unlocks:
  "createBackup env cb wld w = Returns (wld', w') \<Longrightarrow> \<not> mu w'"
  by (auto simp: createBackup_eq notifyObservers_eq split: if_splits)

lemma createBackup_history:
  assumes "\<not> mu w"
  shows "Metadata (snd (state_of (createBackup env cb wld w)))
         = (if isl (os_Stat (fs wld (filepath_Join env (Destination w)
                                       (time_Format env (FolderFormat w) (clock wld)))))
            then Metadata w @
                   [\<lparr>BackupName = [],
                     Timestamp = f64_add (f64_of_int (Unix (clock wld)))
                                   (f64_div (f64_of_int (Nanosecond (clock wld)))
                                      (f64_of_int 1000000000)),
                     Path = time_Format env (FolderFormat w) (clock wld),
                     Compressed = False\<rparr>]
            else Metadata w)"
  using assms by (simp add: createBackup_eq notifyObservers_eq)

lemma createBackup_fresh:
  assumes "\<not> mu w" and "\<forall>observer\<in>set (customObservers w). cb observer = []"
    and "copy_failures wld = 0" and "\<not> isl (os_Stat (fs wld (Source w)))"
    and "destinationPath = filepath_Join env (Destination w)
                             (time_Format env (FolderFormat w) (clock wld))"
    and "isl (os_Stat (fs wld destinationPath))"
    and "backup = \<lparr>BackupName = [],
                    Timestamp = f64_add (f64_of_int (Unix (clock wld)))
                                  (f64_div (f64_of_int (Nanosecond (clock wld)))
                                     (f64_of_int 1000000000)),
                    Path = time_Format env (FolderFormat w) (clock wld),
                    Compressed = False\<rparr>"
    and "\<not> isl (json_MarshalIndent (Metadata w @ [backup]))"
    and "\<not> write_denied wld (metadataJSONPath env w)"
    and "metadataJSONPath env w \<noteq> destinationPath"
    and "\<not> entryIsDir (fs wld (metadataJSONPath env w))"
  shows "createBackup env cb wld w
         = Returns (wld\<lparr>fs := ((fs wld)(destinationPath := fs wld (Source w)))
                               (metadataJSONPath env w :=
                                  File (clock wld) True (BackupsJSON (Metadata w @ [backup]))),
                        copy_calls := copy_calls wld + 1,
                        notified := notified wld @ customObservers w\<rparr>,
                    w\<lparr>Metadata := Metadata w @ [backup], mu := False\<rparr>)"
proof -
  have copied: "copyLoop 100 wld (Source w) destinationPath
      = wld\<lparr>fs := (fs wld)(destinationPath := fs wld (Source w)),
             copy_calls := copy_calls wld + 1\<rparr>"
    using assms(3,4) by (intro copyLoop_succeeds_at_once) simp_all
  show ?thesis
    using assms(1,2,6,8,9,10,11)
    unfolding createBackup_eq assms(5) [symmetric] assms(7) [symmetric] copied
    by (simp add: notifyObservers_eq saveMetadata_eq metadataJSONPath_update)
qed

lemma seven_fields:
  "\<not> mu seven" "customObservers seven = [7]" "Metadata seven = []" "Source seven = ''/src''"
  "time_Format unix_env (FolderFormat seven) 1000000000 = ''1970-01-01_00-00-01.000000''"
  "filepath_Join unix_env (Destination seven) ''1970-01-01_00-00-01.000000''
     = ''/dst/1970-01-01_00-00-01.000000''"
  "metadataJSONPath unix_env seven = ''/dst/metadata.json''"
  by (simp_all add: seven_def example_watcher_def unix_env_def unix_Join_def utc_Format_def
        metadataJSONPath_def)

lemma example_world_fields:
  "clock example_world = 1000000000" "notified example_world = []"
  "copy_calls example_world = 0" "copy_failures example_world = 0"
  "\<not> write_denied example_world path"
  "fs example_world ''/dst/1970-01-01_00-00-01.000000'' = NoNode NotExist"
  "fs example_world ''/dst/metadata.json'' = NoNode NotExist"
  "fs example_world ''/src'' = Dir 0 True [(''a.txt'', File 5 True (Raw ''hello''))]"
  by (simp_all add: example_world_def)

lemma readonly_world_fields:
  "clock readonly_world = 1000000000" "notified readonly_world = []"
  "copy_calls readonly_world = 0" "copy_failures readonly_world = 0"
  "write_denied readonly_world ''/dst/metadata.json''"
  "fs readonly_world = fs example_world"
  by (simp_all add: readonly_world_def example_world_def)

lemma occupied_world_fields:
  "clock occupied_world = 1000000000"
  "fs occupied_world ''/dst/1970-01-01_00-00-01.000000'' = Dir 0 True []"
  by (simp_all add: occupied_world_def example_world_def)

lemma example_marshal:
  "\<not> isl (json_MarshalIndent
            [\<lparr>BackupName = [], Timestamp = Float 1 0, Path = p, Compressed = False\<rparr>])"
  by (simp add: json_MarshalIndent_def)

lemma november_formats:
  "time_Format unix_env (FolderFormat seven) 1793560287038047999 = ''2026-11-01_19-11-27.038047''"
  "time_Format unix_env (FolderFormat seven) 1793560287038048000 = ''2026-11-01_19-11-27.038048''"
  "filepath_Join unix_env (Destination seven) ''2026-11-01_19-11-27.038047''
     = ''/dst/2026-11-01_19-11-27.038047''"
  "filepath_Join unix_env (Destination seven) ''2026-11-01_19-11-27.038048''
     = ''/dst/2026-11-01_19-11-27.038048''"
  by (simp_all add: seven_def example_watcher_def unix_env_def unix_Join_def utc_Format_def)

text \<open>
  C3, as the code has it. For a watcher whose lock is free and whose observers' callbacks
  make no call on the watcher: if \<^verbatim>\<open>os.Stat\<close> succeeds on the target path, the attempt
  returns with the world and the history unchanged (no copy, no record, no write, no
  notification). Otherwise \<^verbatim>\<open>cp.Copy\<close> is called at least once and at most 100 times, up
  to the first success when the source can be read, with a sleep of 100 ms after each
  failed call; whether or not a call succeeded, exactly one record is appended, with the
  timestamp computed from the captured instant and the formatted folder name as path;
  saving the full history to the metadata file is attempted, after which the file holds
  the full history unless marshalling or the write fails, in which case the file system
  is as the copy left it; and the callback of every registered observer is invoked once,
  in registration order.
\<close>

theorem createBackup_postcondition:
  assumes "\<not> mu w" and "\<forall>observer\<in>set (customObservers w). cb observer = []"
  shows
    "let timestampFolder = time_Format env (FolderFormat w) (clock wld);
         destinationPath = filepath_Join env (Destination w) timestampFolder;
         backup = \<lparr>BackupName = [],
                   Timestamp = f64_add (f64_of_int (Unix (clock wld)))
                                 (f64_div (f64_of_int (Nanosecond (clock wld)))
                                    (f64_of_int 1000000000)),
                   Path = timestampFolder, Compressed = False\<rparr>;
         copied = copyLoop 100 wld (Source w) destinationPath
     in (\<not> isl (os_Stat (fs wld destinationPath)) \<longrightarrow>
           createBackup env cb wld w = Returns (wld, w\<lparr>mu := False\<rparr>)) \<and>
        (isl (os_Stat (fs wld destinationPath)) \<longrightarrow>
           (\<exists>wld'. createBackup env cb wld w
                     = Returns (wld', w\<lparr>Metadata := Metadata w @ [backup], mu := False\<rparr>) \<and>
              copy_calls wld < copy_calls wld' \<and> copy_calls wld' \<le> copy_calls wld + 100 \<and>
              (clock wld' = clock wld
                             + 100000000 * int (copy_calls wld' - copy_calls wld - 1) \<or>
               copy_calls wld' = copy_calls wld + 100 \<and>
               clock wld' = clock wld + 10000000000) \<and>
              (\<not> isl (os_Stat (fs wld (Source w))) \<longrightarrow>
                 copy_calls wld' = copy_calls wld + min 100 (copy_failures wld + 1)) \<and>
              notified wld' = notified wld @ customObservers w \<and>
              fs wld' =
                (if isl (json_MarshalIndent (Metadata w @ [backup]))
                    \<or> write_denied wld (metadataJSONPath env w)
                    \<or> entryIsDir (fs copied (metadataJSONPath env w))
                 then fs copied
                 else (fs copied)(metadataJSONPath env w :=
                         File (clock copied) True (BackupsJSON (Metadata w @ [backup]))))))"
proof -
  define destinationPath
    where "destinationPath = filepath_Join env (Destination w)
                               (time_Format env (FolderFormat w) (clock wld))"
  define copied where "copied = copyLoop 100 wld (Source w) destinationPath"
  have frame: "notified copied = notified wld" "write_denied copied = write_denied wld"
    using copyLoop_frame [of 100 wld "Source w" destinationPath] by (simp_all add: copied_def)
  have effect:
    "copy_calls wld < copy_calls copied" "copy_calls copied \<le> copy_calls wld + 100"
    "clock copied = clock wld + 100000000 * int (copy_calls copied - copy_calls wld - 1) \<or>
     copy_calls copied = copy_calls wld + 100 \<and> clock copied = clock wld + 10000000000"
    using copyLoop_effect [of wld 100 "Source w" destinationPath] by (auto simp: copied_def)
  have calls: "\<not> isl (os_Stat (fs wld (Source w))) \<Longrightarrow>
      copy_calls copied = copy_calls wld + min 100 (copy_failures wld + 1)"
    unfolding copied_def by (rule copyLoop_calls)
  show ?thesis
    using assms frame effect calls
    by (simp add: createBackup_eq notifyObservers_eq saveMetadata_eq Let_def metadataJSONPath_def
          flip: destinationPath_def copied_def)
qed

theorem createBackup_postcondition_witness:
  "createBackup unix_env no_calls example_world seven
     = Returns (state_of (createBackup unix_env no_calls example_world seven)) \<and>
   Metadata (snd (state_of (createBackup unix_env no_calls example_world seven)))
     = [\<lparr>BackupName = [], Timestamp = Float 1 0, Path = ''1970-01-01_00-00-01.000000'',
         Compressed = False\<rparr>] \<and>
   copy_calls (fst (state_of (createBackup unix_env no_calls example_world seven))) = 1 \<and>
   notified (fst (state_of (createBackup unix_env no_calls example_world seven))) = [7] \<and>
   fs (fst (state_of (createBackup unix_env no_calls example_world seven))) ''/dst/metadata.json''
     = File 1000000000 True
         (BackupsJSON [\<lparr>BackupName = [], Timestamp = Float 1 0,
                        Path = ''1970-01-01_00-00-01.000000'', Compressed = False\<rparr>]) \<and>
   createBackup unix_env no_calls occupied_world seven
     = Returns (occupied_world, seven\<lparr>mu := False\<rparr>)"
proof -
  have quiet: "\<forall>observer\<in>set (customObservers seven). no_calls observer = []"
    by (simp add: no_calls_def)
  have copied: "copyLoop 100 example_world ''/src'' ''/dst/1970-01-01_00-00-01.000000''
      = example_world\<lparr>fs := (fs example_world)
                              (''/dst/1970-01-01_00-00-01.000000'' := fs example_world ''/src''),
                       copy_calls := copy_calls example_world + 1\<rparr>"
    by (rule copyLoop_succeeds_at_once) (simp_all add: example_world_fields)
  have "createBackup unix_env no_calls occupied_world seven
          = Returns (occupied_world, seven\<lparr>mu := False\<rparr>)"
    using createBackup_postcondition [OF seven_fields(1) quiet, of unix_env occupied_world]
    unfolding Let_def occupied_world_fields(1) seven_fields example_timestamp
    by (simp add: occupied_world_fields)
  with createBackup_postcondition [OF seven_fields(1) quiet, of unix_env example_world]
  show ?thesis
    unfolding Let_def example_world_fields(1) seven_fields example_timestamp copied
    by (auto simp: example_world_fields example_marshal)
qed

text \<open>
  C3 as the specification states it fails: when the metadata file cannot be written, the
  attempt appends the record and notifies the observer, and no metadata file holds the
  history.
\<close>

theorem createBackup_not_persisted_counterexample:
  "createBackup unix_env no_calls readonly_world seven
     = Returns (state_of (createBackup unix_env no_calls readonly_world seven)) \<and>
   Metadata (snd (state_of (createBackup unix_env no_calls readonly_world seven)))
     = [\<lparr>BackupName = [], Timestamp = Float 1 0, Path = ''1970-01-01_00-00-01.000000'',
         Compressed = False\<rparr>] \<and>
   notified (fst (state_of (createBackup unix_env no_calls readonly_world seven))) = [7] \<and>
   fs (fst (state_of (createBackup unix_env no_calls readonly_world seven)))
      (metadataJSONPath unix_env seven) = NoNode NotExist"
proof -
  have copied: "write_denied (copyLoop 100 readonly_world ''/src''
                                ''/dst/1970-01-01_00-00-01.000000'') ''/dst/metadata.json''"
    by (simp add: copyLoop_frame readonly_world_fields)
  have fs_copied: "fs (copyLoop 100 readonly_world ''/src'' ''/dst/1970-01-01_00-00-01.000000'')
                     ''/dst/metadata.json'' = NoNode NotExist"
    by (subst copyLoop_succeeds_at_once)
       (simp_all add: readonly_world_fields example_world_fields)
  show ?thesis
    by (simp add: createBackup_eq notifyObservers_eq saveMetadata_eq metadataJSONPath_update
          seven_fields readonly_world_fields example_world_fields no_calls_def copied fs_copied
          example_timestamp example_marshal copyLoop_frame)
qed

text \<open>
  C10, as the code has it. A snapshot attempt, whether it returns or blocks for ever in
  the notification of the observers, leaves the history as it was or appends exactly one
  record, and both fields of that record are computed from the one captured instant: the
  path is its rendering with the folder format, and the timestamp is the \<^verbatim>\<open>float64\<close> sum
  of its seconds since the epoch and of the \<^verbatim>\<open>float64\<close> quotient of its nanoseconds
  within the second by \<open>10 ^ 9\<close>.
\<close>

theorem createBackup_record_consistent:
  assumes "createBackup env cb wld w = Returns (wld', w')
           \<or> createBackup env cb wld w = Hangs (wld', w')"
  shows "Metadata w' = Metadata w \<or>
         (\<exists>backup. Metadata w' = Metadata w @ [backup] \<and>
            Path backup = time_Format env (FolderFormat w) (clock wld) \<and>
            Timestamp backup
              = f64_add (f64_of_int (Unix (clock wld)))
                  (f64_div (f64_of_int (Nanosecond (clock wld))) (f64_of_int 1000000000)))"
  using assms by (auto simp: createBackup_eq notifyObservers_eq split: if_splits)

theorem createBackup_record_consistent_witness:
  "(createBackup unix_env reregister example_world seven
      = Returns (state_of (createBackup unix_env reregister example_world seven)) \<or>
    createBackup unix_env reregister example_world seven
      = Hangs (state_of (createBackup unix_env reregister example_world seven))) \<and>
   \<not> returns (createBackup unix_env reregister example_world seven) \<and>
   Metadata (snd (state_of (createBackup unix_env reregister example_world seven)))
     \<noteq> Metadata seven \<and>
   (\<exists>backup. Metadata (snd (state_of (createBackup unix_env reregister example_world seven)))
                = Metadata seven @ [backup] \<and>
       Path backup = ''1970-01-01_00-00-01.000000'' \<and> Timestamp backup = Float 1 0)"
proof -
  have hangs: "createBackup unix_env reregister example_world seven
      = Hangs (state_of (createBackup unix_env reregister example_world seven))"
    by (simp add: createBackup_eq notifyObservers_eq seven_fields example_world_fields
          reregister_def)
  have history: "Metadata (snd (state_of (createBackup unix_env reregister example_world seven)))
      = [\<lparr>BackupName = [], Timestamp = Float 1 0, Path = ''1970-01-01_00-00-01.000000'',
          Compressed = False\<rparr>]"
    by (simp add: createBackup_history seven_fields example_world_fields example_timestamp)
  from hangs have "\<not> returns (createBackup unix_env reregister example_world seven)"
    by (cases "createBackup unix_env reregister example_world seven") auto
  with hangs history
       createBackup_record_consistent
         [of unix_env reregister example_world seven
             "fst (state_of (createBackup unix_env reregister example_world seven))"
             "snd (state_of (createBackup unix_env reregister example_world seven))"]
  show ?thesis
    by (simp add: seven_fields example_world_fields example_timestamp)
qed

text \<open>
  C10 as the specification states it fails: the timestamp is rounded to a \<^verbatim>\<open>float64\<close>,
  so it does not store the instant that the path renders. The attempts at two instants
  one nanosecond apart append records with different paths and the same timestamp, and
  that timestamp denotes neither instant.
\<close>

theorem createBackup_timestamp_rounded_counterexample:
  "Metadata (snd (state_of (createBackup unix_env no_calls
                              (example_world\<lparr>clock := 1793560287038047999\<rparr>) seven)))
     = [\<lparr>BackupName = [], Timestamp = Float 7522737086164833 (- 22),
         Path = ''2026-11-01_19-11-27.038047'', Compressed = False\<rparr>] \<and>
   Metadata (snd (state_of (createBackup unix_env no_calls
                              (example_world\<lparr>clock := 1793560287038048000\<rparr>) seven)))
     = [\<lparr>BackupName = [], Timestamp = Float 7522737086164833 (- 22),
         Path = ''2026-11-01_19-11-27.038048'', Compressed = False\<rparr>] \<and>
   f64_real (Float 7522737086164833 (- 22)) * 1000000000 \<noteq> 1793560287038047999 \<and>
   f64_real (Float 7522737086164833 (- 22)) * 1000000000 \<noteq> 1793560287038048000"
  by (simp add: createBackup_history seven_fields november_formats november_timestamps
        example_world_def)

text \<open>
  C9, at a failing input. \<^verbatim>\<open>notifyObservers\<close> holds \<^verbatim>\<open>w.mu\<close> while the callbacks run, so
  with an observer whose callback removes and adds itself again, the notification pass
  blocks for ever in the first call of the callback, and the snapshot attempt that runs
  the pass never returns. With callbacks that make no call on the watcher the pass
  returns after invoking the registered observer.
\<close>

theorem notifyObservers_reentrant_callback:
  "notifyObservers reregister example_world seven
     = Hangs (example_world\<lparr>notified := [7]\<rparr>, seven\<lparr>mu := True\<rparr>) \<and>
   \<not> returns (createBackup unix_env reregister example_world seven) \<and>
   notifyObservers no_calls example_world seven
     = Returns (example_world\<lparr>notified := [7]\<rparr>, seven\<lparr>mu := False\<rparr>)"
  by (simp add: notifyObservers_eq createBackup_eq seven_fields example_world_fields
        reregister_def no_calls_def)

subsection \<open>Validation of a configuration\<close>

lemma validateDir_eq:
  "validateDir wld path e errs
     = (fst (validateDirOld wld path e), errs @ snd (validateDirOld wld path e))"
  by (simp add: validateDir_def validateDirOld_def os_MkdirAll_def
           split: sum.splits os_error.splits)

lemma validateFolderFormat_eq:
  "validateFolderFormat env wld waitTime folderFormat errs =
     (fst (validateDirOld wld folderFormat ErrorInvalidFolderFormat),
      errs
      @ (if time_Format env folderFormat (time_Unix 0 0)
            = time_Format env folderFormat
                (time_Unix (int64 env waitTime)
                   (int64 env (f64_mul (f64_sub waitTime (f64_of_int (int64 env waitTime)))
                                 (f64_of_int 1000000000))))
         then [Errorf ''%w: folder format lacks adequate precision for wait time''
                 [ArgError ErrorInvalidFolderFormat]]
         else [])
      @ snd (validateDirOld wld folderFormat ErrorInvalidFolderFormat))"
  by (simp add: validateFolderFormat_def Let_def validateDir_eq)

lemma validateFolderFormat_append:
  "validateFolderFormat env wld waitTime folderFormat errs =
     (fst (validateFolderFormat env wld waitTime folderFormat []),
      errs @ snd (validateFolderFormat env wld waitTime folderFormat []))"
  by (simp add: validateFolderFormat_eq)

lemma validateSourceAndDestination_append:
  "validateSourceAndDestination env wld source destination errs =
     (fst (validateSourceAndDestination env wld source destination []),
      errs @ snd (validateSourceAndDestination env wld source destination []))"
  by (simp add: validateSourceAndDestination_def split: prod.splits)

lemma NewWatcher_errors:
  "\<exists>rest. snd (snd (NewWatcher env wld name source destination waitTime folderFormat enabled))
     = validateName name [] @ validateWaitTime waitTime []
       @ snd (validateFolderFormat env wld waitTime folderFormat [])
       @ snd (validateSourceAndDestination env
                (fst (validateFolderFormat env wld waitTime folderFormat []))
                source destination [])
       @ rest \<and>
     (\<forall>e\<in>set rest. \<exists>err. e = Errorf ''error loading metadata: %w'' [ArgError err])"
proof -
  define pre where "pre = validateWaitTime waitTime (validateName name [])"
  define wld1 where "wld1 = fst (validateFolderFormat env wld waitTime folderFormat [])"
  define ff where "ff = snd (validateFolderFormat env wld waitTime folderFormat [])"
  define wld2 where "wld2 = fst (validateSourceAndDestination env wld1 source destination [])"
  define sd where "sd = snd (validateSourceAndDestination env wld1 source destination [])"
  have pre: "pre = validateName name [] @ validateWaitTime waitTime []"
    by (simp add: pre_def validateName_def validateWaitTime_def)
  have 1: "validateFolderFormat env wld waitTime folderFormat pre = (wld1, pre @ ff)"
    unfolding wld1_def ff_def by (rule validateFolderFormat_append)
  have 2: "validateSourceAndDestination env wld1 source destination (pre @ ff)
             = (wld2, (pre @ ff) @ sd)"
    unfolding wld2_def sd_def by (rule validateSourceAndDestination_append)
  show ?thesis
    unfolding NewWatcher_def Let_def
    unfolding pre_def [symmetric] 1 prod.case 2
    unfolding wld1_def [symmetric] ff_def [symmetric] sd_def [symmetric] pre
    by (auto split: prod.splits option.splits)
qed

lemma precision_error_elsewhere:
  "Errorf ''%w: folder format lacks adequate precision for wait time''
     [ArgError ErrorInvalidFolderFormat] \<notin> set (validateName name [])"
  "Errorf ''%w: folder format lacks adequate precision for wait time''
     [ArgError ErrorInvalidFolderFormat] \<notin> set (validateWaitTime waitTime [])"
  "Errorf ''%w: folder format lacks adequate precision for wait time''
     [ArgError ErrorInvalidFolderFormat] \<notin> set (snd (validateDirOld wld path e))"
  by (auto simp: validateName_def validateWaitTime_def validateDirOld_def os_MkdirAll_def
           split: sum.splits os_error.splits if_splits)

lemma precision_error_not_relational:
  "Errorf ''%w: folder format lacks adequate precision for wait time''
     [ArgError ErrorInvalidFolderFormat]
   \<notin> set (snd (validateSourceAndDestination env wld source destination []))"
proof -
  have dir: "Errorf ''%w: folder format lacks adequate precision for wait time''
               [ArgError ErrorInvalidFolderFormat] \<notin> set es"
    if "validateDirOld wld' path e = (wld'', es)" for wld' path e wld'' es
    using precision_error_elsewhere(3) [of wld' path e] that by simp
  show ?thesis
    by (auto simp: validateSourceAndDestination_def dest: dir
             split: prod.splits option.splits if_splits)
qed

lemma unix_paths:
  "filepath_Abs unix_env ''/src'' = (''/src'', None)"
  "filepath_Abs unix_env ''/dst'' = (''/dst'', None)"
  "filepath_Abs unix_env ''/src/backups'' = (''/src/backups'', None)"
  "filepath_Abs unix_env ''/src/..backups'' = (''/src/..backups'', None)"
  "filepath_Rel unix_env ''/src'' ''/dst'' = (''../dst'', None)"
  "filepath_Rel unix_env ''/src'' ''/src/backups'' = (''backups'', None)"
  "filepath_Rel unix_env ''/src'' ''/src/..backups'' = (''..backups'', None)"
  "\<not> filepath_IsAbs unix_env ''backups''"
  "\<not> filepath_IsAbs unix_env ''..backups''"
  "\<not> filepath_IsAbs unix_env ''../dst''"
  "filepath_Join unix_env ''/dst'' ''metadata.json'' = ''/dst/metadata.json''"
  "filepath_Join unix_env ''/src/..backups'' ''metadata.json'' = ''/src/..backups/metadata.json''"
  by (simp_all add: unix_env_def unix_Abs_def unix_IsAbs_def unix_Rel_def unix_Join_def)

lemma validateSourceAndDestination_examples:
  "snd (validateSourceAndDestination unix_env example_world ''/src'' ''/src/..backups'' []) = []"
  "snd (validateSourceAndDestination unix_env example_world ''/src'' ''/src/backups'' [])
     = [Errorf ''%w: destination path cannot be inside the source path''
          [ArgError ErrorInvalidDestination]]"
  "snd (validateSourceAndDestination unix_env example_world ''/src'' ''/dst'' []) = []"
  by (simp_all add: validateSourceAndDestination_def validateDirOld_def os_MkdirAll_def
        unix_paths example_world_def)

lemma validateDirOld_keeps_files:
  "fs wld p = File m r c \<Longrightarrow> fs (fst (validateDirOld wld q e)) p = File m r c"
  by (auto simp: validateDirOld_def os_MkdirAll_def split: sum.splits os_error.splits)

lemma validateDirOld_file:
  "fs wld p = File m r c \<Longrightarrow>
   snd (validateDirOld wld p e)
     = [Errorf ''%w: %s exists but is not a directory'' [ArgError e, ArgString p]]"
  by (simp add: validateDirOld_def)

lemma validateSourceAndDestination_contains:
  "set (snd (validateDirOld wld source ErrorInvalidSource))
     \<subseteq> set (snd (validateSourceAndDestination env wld source destination []))"
  "set (snd (validateDirOld (fst (validateDirOld wld source ErrorInvalidSource)) destination
               ErrorInvalidDestination))
     \<subseteq> set (snd (validateSourceAndDestination env wld source destination []))"
  "fst (filepath_Abs env source) = fst (filepath_Abs env destination) \<Longrightarrow>
     Errorf ''%w: source and destination paths cannot be the same'' [ArgError ErrorInvalidSource]
       \<in> set (snd (validateSourceAndDestination env wld source destination [])) \<and>
     Errorf ''%w: destination and source paths cannot be the same''
       [ArgError ErrorInvalidDestination]
       \<in> set (snd (validateSourceAndDestination env wld source destination []))"
  "\<not> filepath_IsAbs env (fst (filepath_Rel env (fst (filepath_Abs env source))
                                  (fst (filepath_Abs env destination)))) \<Longrightarrow>
   \<not> prefix ''..'' (fst (filepath_Rel env (fst (filepath_Abs env source))
                                  (fst (filepath_Abs env destination)))) \<Longrightarrow>
   fst (filepath_Rel env (fst (filepath_Abs env source))
                                  (fst (filepath_Abs env destination))) \<noteq> ''.'' \<Longrightarrow>
     Errorf ''%w: destination path cannot be inside the source path''
       [ArgError ErrorInvalidDestination]
       \<in> set (snd (validateSourceAndDestination env wld source destination []))"
  by (auto simp: validateSourceAndDestination_def split: prod.splits)

text \<open>
  C5, as the code has it. \<^verbatim>\<open>NewWatcher\<close> reports the violation of the folder format's
  precision exactly when formatting the instant 0 and the instant that the program
  computes for 0 plus the wait time, \<^verbatim>\<open>time.Unix(seconds, nanoseconds)\<close> with
  \<^verbatim>\<open>seconds = int64(w)\<close> and \<^verbatim>\<open>nanoseconds = int64((w - float64(seconds)) * 1e9)\<close> in
  \<^verbatim>\<open>float64\<close> arithmetic, gives the same string, and then the configuration is rejected.
  For a wait time of \<open>s\<close> whole seconds, \<open>s\<close> up to \<open>4 * 10 ^ 9\<close>, that instant is
  \<open>s * 10 ^ 9\<close> nanoseconds after the instant 0.
\<close>

theorem NewWatcher_folder_format_collision:
  "let seconds = int64 env waitTime;
       nanoseconds = int64 env (f64_mul (f64_sub waitTime (f64_of_int seconds))
                                  (f64_of_int 1000000000));
       errs = snd (snd (NewWatcher env wld name source destination waitTime folderFormat enabled))
   in (Errorf ''%w: folder format lacks adequate precision for wait time''
         [ArgError ErrorInvalidFolderFormat] \<in> set errs
       \<longleftrightarrow> time_Format env folderFormat (time_Unix 0 0)
           = time_Format env folderFormat (time_Unix seconds nanoseconds)) \<and>
      (time_Format env folderFormat (time_Unix 0 0)
         = time_Format env folderFormat (time_Unix seconds nanoseconds)
       \<longrightarrow> errs \<noteq> []) \<and>
      (\<forall>s. 0 < s \<and> s \<le> 4000000000 \<and> waitTime = f64_of_int s \<longrightarrow>
         time_Unix seconds nanoseconds = time_Unix 0 0 + s * 1000000000)"
proof -
  let ?p = "Errorf ''%w: folder format lacks adequate precision for wait time''
              [ArgError ErrorInvalidFolderFormat]"
  let ?errs = "snd (snd (NewWatcher env wld name source destination waitTime folderFormat
                           enabled))"
  let ?instant = "time_Unix (int64 env waitTime)
                    (int64 env (f64_mul (f64_sub waitTime (f64_of_int (int64 env waitTime)))
                                  (f64_of_int 1000000000)))"
  let ?collide = "time_Format env folderFormat (time_Unix 0 0)
              = time_Format env folderFormat ?instant"
  from NewWatcher_errors [of env wld name source destination waitTime folderFormat enabled]
  obtain rest where errs: "?errs = validateName name [] @ validateWaitTime waitTime []
       @ snd (validateFolderFormat env wld waitTime folderFormat [])
       @ snd (validateSourceAndDestination env
                (fst (validateFolderFormat env wld waitTime folderFormat []))
                source destination [])
       @ rest"
    and rest: "\<forall>e\<in>set rest. \<exists>err. e = Errorf ''error loading metadata: %w'' [ArgError err]"
    by blast
  from rest have not_rest: "?p \<notin> set rest" by auto
  have ff: "?p \<in> set (snd (validateFolderFormat env wld waitTime folderFormat [])) \<longleftrightarrow> ?collide"
    unfolding validateFolderFormat_eq
    using precision_error_elsewhere(3) [of wld folderFormat ErrorInvalidFolderFormat]
    by simp
  have iff: "?p \<in> set ?errs \<longleftrightarrow> ?collide"
    unfolding errs
    using ff not_rest precision_error_elsewhere(1,2) precision_error_not_relational
    by simp
  then have rejected: "?collide \<longrightarrow> ?errs \<noteq> []" by auto
  have whole: "?instant = time_Unix 0 0 + s * 1000000000"
    if "0 < s" "s \<le> 4000000000" "waitTime = f64_of_int s" for s
    using that whole_seconds(1,2) [of s env] whole_seconds(3) [of s]
    by (simp add: time_Unix_whole_seconds f64_of_int_def [of 0] f64_round_def [of 0]
          f64_trunc.simps int64_def [of env "Float 0 0"] billion)
  from iff rejected whole show ?thesis
    unfolding Let_def by blast
qed

theorem NewWatcher_folder_format_collision_witness:
  "time_Format unix_env ''2006-01-02'' (time_Unix 0 0)
     = time_Format unix_env ''2006-01-02''
         (time_Unix (int64 unix_env (Float 1 0))
            (int64 unix_env (f64_mul (f64_sub (Float 1 0) (f64_of_int (int64 unix_env (Float 1 0))))
                               (f64_of_int 1000000000)))) \<and>
   Errorf ''%w: folder format lacks adequate precision for wait time''
     [ArgError ErrorInvalidFolderFormat]
     \<in> set (snd (snd (NewWatcher unix_env example_world ''Main Watcher'' ''/src'' ''/dst''
                         (Float 1 0) ''2006-01-02'' True))) \<and>
   snd (snd (NewWatcher unix_env example_world ''Main Watcher'' ''/src'' ''/dst''
               (Float 1 0) ''2006-01-02'' True)) \<noteq> [] \<and>
   0 < (1::int) \<and> (1::int) \<le> 4000000000 \<and> Float 1 0 = f64_of_int 1 \<and>
   time_Unix (int64 unix_env (Float 1 0))
     (int64 unix_env (f64_mul (f64_sub (Float 1 0) (f64_of_int (int64 unix_env (Float 1 0))))
                        (f64_of_int 1000000000))) = 1000000000 \<and>
   time_Unix (int64 unix_env (Float 4722366482869645 (- 72)))
     (int64 unix_env
        (f64_mul (f64_sub (Float 4722366482869645 (- 72))
                    (f64_of_int (int64 unix_env (Float 4722366482869645 (- 72)))))
           (f64_of_int 1000000000))) = 1000 \<and>
   Errorf ''%w: folder format lacks adequate precision for wait time''
     [ArgError ErrorInvalidFolderFormat]
     \<notin> set (snd (snd (NewWatcher unix_env example_world ''Main Watcher'' ''/src'' ''/dst''
                         (Float 4722366482869645 (- 72)) ''2006-01-02_15-04-05.000000'' True)))"
proof -
  have one: "Float 1 0 = f64_of_int 1" by code_simp
  from NewWatcher_folder_format_collision
         [where env = unix_env and folderFormat = "''2006-01-02''" and waitTime = "Float 1 0"
            and wld = example_world and name = "''Main Watcher''" and source = "''/src''"
            and destination = "''/dst''" and enabled = True]
       NewWatcher_folder_format_collision
         [where env = unix_env and folderFormat = "''2006-01-02_15-04-05.000000''"
            and waitTime = "Float 4722366482869645 (- 72)"
            and wld = example_world and name = "''Main Watcher''" and source = "''/src''"
            and destination = "''/dst''" and enabled = True]
  show ?thesis
    unfolding Let_def whole_second microsecond
    using one by simp
qed

text \<open>
  C5 as the specification states it fails in one direction: with a wait time of one
  second and the default layout the two strings differ, and \<^verbatim>\<open>NewWatcher\<close> still rejects
  the configuration when a regular file named like the layout exists, because
  \<^verbatim>\<open>validateFolderFormat\<close> also validates the layout as a directory.
\<close>

theorem NewWatcher_rejects_without_collision_counterexample:
  "\<not> f64_le (Float 1 0) (Float 0 0) \<and>
   time_Format unix_env ''2006-01-02_15-04-05.000000'' (time_Unix 0 0)
     \<noteq> time_Format unix_env ''2006-01-02_15-04-05.000000''
         (time_Unix (int64 unix_env (Float 1 0))
            (int64 unix_env (f64_mul (f64_sub (Float 1 0) (f64_of_int (int64 unix_env (Float 1 0))))
                               (f64_of_int 1000000000)))) \<and>
   time_Format unix_env ''2006-01-02_15-04-05.000000'' (time_Unix 0 0)
     \<noteq> time_Format unix_env ''2006-01-02_15-04-05.000000'' (time_Unix 0 0 + 1000000000) \<and>
   snd (snd (NewWatcher unix_env clashing_world ''Main Watcher'' ''/src'' ''/dst'' (Float 1 0)
               ''2006-01-02_15-04-05.000000'' True))
     = [Errorf ''%w: %s exists but is not a directory''
          [ArgError ErrorInvalidFolderFormat, ArgString ''2006-01-02_15-04-05.000000'']]"
  apply (simp add: NewWatcher_def)
  apply (simp add: validateName_def validateWaitTime_def validateFolderFormat_eq whole_second)
  apply (simp add: validateDirOld_def os_MkdirAll_def validateSourceAndDestination_def
           unix_paths loadMetadata_def metadataJSONPath_def clashing_world_def example_world_def)
  done

text \<open>
  C6, at a failing input. The destination \<^verbatim>\<open>/src/..backups\<close> is inside the source
  \<^verbatim>\<open>/src\<close>; the relative path is \<^verbatim>\<open>..backups\<close>, which has the prefix \<^verbatim>\<open>..\<close>, so neither
  \<^verbatim>\<open>validateSourceAndDestination\<close> nor \<^verbatim>\<open>NewWatcher\<close> reports an error. The destination
  \<^verbatim>\<open>/src/backups\<close> is rejected.
\<close>

theorem validateSourceAndDestination_dotdot_name:
  "snd (validateSourceAndDestination unix_env example_world ''/src'' ''/src/..backups'' []) = [] \<and>
   snd (snd (NewWatcher unix_env example_world ''Main Watcher'' ''/src'' ''/src/..backups''
               (Float 1 0) ''2006-01-02_15-04-05.000000'' True)) = [] \<and>
   snd (validateSourceAndDestination unix_env example_world ''/src'' ''/src/backups'' [])
     = [Errorf ''%w: destination path cannot be inside the source path''
          [ArgError ErrorInvalidDestination]]"
proof -
  have "snd (snd (NewWatcher unix_env example_world ''Main Watcher'' ''/src'' ''/src/..backups''
               (Float 1 0) ''2006-01-02_15-04-05.000000'' True)) = []"
    apply (simp add: NewWatcher_def)
    apply (simp add: validateName_def validateWaitTime_def validateFolderFormat_eq whole_second)
    apply (simp add: validateDirOld_def os_MkdirAll_def validateSourceAndDestination_def
             unix_paths loadMetadata_def metadataJSONPath_def example_world_def)
    done
  with validateSourceAndDestination_examples(1,2) show ?thesis by simp
qed

text \<open>
  C8. The error that \<^verbatim>\<open>NewWatcher\<close> returns starts with the errors of
  \<^verbatim>\<open>validateName\<close>, \<^verbatim>\<open>validateWaitTime\<close>, \<^verbatim>\<open>validateFolderFormat\<close> and
  \<^verbatim>\<open>validateSourceAndDestination\<close>, each as the validator reports them on its own, and
  every violation is in it whatever the other fields are: an empty name, a non-positive
  wait time, a folder format without precision, a folder format, source or destination
  that is a regular file, equal absolute paths, and a destination inside the source.
\<close>

theorem NewWatcher_aggregates_violations:
  "let errs = snd (snd (NewWatcher env wld name source destination waitTime folderFormat enabled));
       absSource = fst (filepath_Abs env source);
       absDest = fst (filepath_Abs env destination);
       relPath = fst (filepath_Rel env absSource absDest)
   in (\<exists>rest. errs = validateName name [] @ validateWaitTime waitTime []
                 @ snd (validateFolderFormat env wld waitTime folderFormat [])
                 @ snd (validateSourceAndDestination env
                          (fst (validateFolderFormat env wld waitTime folderFormat []))
                          source destination [])
                 @ rest) \<and>
      (name = [] \<longrightarrow>
         Errorf ''%w: name cannot be empty'' [ArgError ErrorInvalidNameV2] \<in> set errs) \<and>
      (f64_le waitTime (Float 0 0) \<longrightarrow>
         Errorf ''%w: wait time must be at least 0 seconds'' [ArgError ErrorInvalidWaitTime]
           \<in> set errs) \<and>
      (time_Format env folderFormat (time_Unix 0 0)
         = time_Format env folderFormat
             (time_Unix (int64 env waitTime)
                (int64 env (f64_mul (f64_sub waitTime (f64_of_int (int64 env waitTime)))
                              (f64_of_int 1000000000)))) \<longrightarrow>
         Errorf ''%w: folder format lacks adequate precision for wait time''
           [ArgError ErrorInvalidFolderFormat] \<in> set errs) \<and>
      ((\<exists>m r c. fs wld folderFormat = File m r c) \<longrightarrow>
         Errorf ''%w: %s exists but is not a directory''
           [ArgError ErrorInvalidFolderFormat, ArgString folderFormat] \<in> set errs) \<and>
      ((\<exists>m r c. fs wld source = File m r c) \<longrightarrow>
         Errorf ''%w: %s exists but is not a directory''
           [ArgError ErrorInvalidSource, ArgString source] \<in> set errs) \<and>
      ((\<exists>m r c. fs wld destination = File m r c) \<longrightarrow>
         Errorf ''%w: %s exists but is not a directory''
           [ArgError ErrorInvalidDestination, ArgString destination] \<in> set errs) \<and>
      (absSource = absDest \<longrightarrow>
         Errorf ''%w: source and destination paths cannot be the same''
           [ArgError ErrorInvalidSource] \<in> set errs \<and>
         Errorf ''%w: destination and source paths cannot be the same''
           [ArgError ErrorInvalidDestination] \<in> set errs) \<and>
      (\<not> filepath_IsAbs env relPath \<and> \<not> prefix ''..'' relPath \<and> relPath \<noteq> ''.'' \<longrightarrow>
         Errorf ''%w: destination path cannot be inside the source path''
           [ArgError ErrorInvalidDestination] \<in> set errs)"
proof -
  define errs
    where "errs = snd (snd (NewWatcher env wld name source destination waitTime folderFormat
                              enabled))"
  define wld1 where "wld1 = fst (validateFolderFormat env wld waitTime folderFormat [])"
  define ff where "ff = snd (validateFolderFormat env wld waitTime folderFormat [])"
  define sd where "sd = snd (validateSourceAndDestination env wld1 source destination [])"
  from NewWatcher_errors [of env wld name source destination waitTime folderFormat enabled]
  obtain rest where errs: "errs = validateName name [] @ validateWaitTime waitTime [] @ ff @ sd @ rest"
    unfolding errs_def wld1_def ff_def sd_def by blast
  have wld1: "wld1 = fst (validateDirOld wld folderFormat ErrorInvalidFolderFormat)"
    by (simp add: wld1_def validateFolderFormat_eq)
  have 1: "name = [] \<longrightarrow>
      Errorf ''%w: name cannot be empty'' [ArgError ErrorInvalidNameV2] \<in> set errs"
    by (simp add: errs validateName_def)
  have 2: "f64_le waitTime (Float 0 0) \<longrightarrow>
      Errorf ''%w: wait time must be at least 0 seconds'' [ArgError ErrorInvalidWaitTime]
        \<in> set errs"
    by (simp add: errs validateWaitTime_def)
  have 3: "time_Format env folderFormat (time_Unix 0 0)
         = time_Format env folderFormat
             (time_Unix (int64 env waitTime)
                (int64 env (f64_mul (f64_sub waitTime (f64_of_int (int64 env waitTime)))
                              (f64_of_int 1000000000)))) \<longrightarrow>
         Errorf ''%w: folder format lacks adequate precision for wait time''
           [ArgError ErrorInvalidFolderFormat] \<in> set errs"
    unfolding errs ff_def validateFolderFormat_eq by simp
  have 4: "(\<exists>m r c. fs wld folderFormat = File m r c) \<longrightarrow>
         Errorf ''%w: %s exists but is not a directory''
           [ArgError ErrorInvalidFolderFormat, ArgString folderFormat] \<in> set errs"
    unfolding errs ff_def validateFolderFormat_eq by (auto simp: validateDirOld_file)
  have 5: "(\<exists>m r c. fs wld source = File m r c) \<longrightarrow>
         Errorf ''%w: %s exists but is not a directory''
           [ArgError ErrorInvalidSource, ArgString source] \<in> set errs"
  proof
    assume "\<exists>m r c. fs wld source = File m r c"
    then obtain m r c where "fs wld1 source = File m r c"
      unfolding wld1 using validateDirOld_keeps_files by blast
    then have "Errorf ''%w: %s exists but is not a directory''
           [ArgError ErrorInvalidSource, ArgString source]
           \<in> set (snd (validateDirOld wld1 source ErrorInvalidSource))"
      by (simp add: validateDirOld_file)
    with validateSourceAndDestination_contains(1) [of wld1 source env destination]
    show "Errorf ''%w: %s exists but is not a directory''
           [ArgError ErrorInvalidSource, ArgString source] \<in> set errs"
      unfolding errs sd_def by auto
  qed
  have 6: "(\<exists>m r c. fs wld destination = File m r c) \<longrightarrow>
         Errorf ''%w: %s exists but is not a directory''
           [ArgError ErrorInvalidDestination, ArgString destination] \<in> set errs"
  proof
    assume "\<exists>m r c. fs wld destination = File m r c"
    then obtain m r c where "fs wld1 destination = File m r c"
      unfolding wld1 using validateDirOld_keeps_files by blast
    then have "fs (fst (validateDirOld wld1 source ErrorInvalidSource)) destination = File m r c"
      by (rule validateDirOld_keeps_files)
    then have "Errorf ''%w: %s exists but is not a directory''
           [ArgError ErrorInvalidDestination, ArgString destination]
           \<in> set (snd (validateDirOld (fst (validateDirOld wld1 source ErrorInvalidSource))
                          destination ErrorInvalidDestination))"
      by (simp add: validateDirOld_file)
    with validateSourceAndDestination_contains(2) [of wld1 source destination env]
    show "Errorf ''%w: %s exists but is not a directory''
           [ArgError ErrorInvalidDestination, ArgString destination] \<in> set errs"
      unfolding errs sd_def by auto
  qed
  have 7: "fst (filepath_Abs env source) = fst (filepath_Abs env destination) \<longrightarrow>
         Errorf ''%w: source and destination paths cannot be the same''
           [ArgError ErrorInvalidSource] \<in> set errs \<and>
         Errorf ''%w: destination and source paths cannot be the same''
           [ArgError ErrorInvalidDestination] \<in> set errs"
    using validateSourceAndDestination_contains(3) [of env source destination wld1]
    unfolding errs sd_def by auto
  have 8: "\<not> filepath_IsAbs env (fst (filepath_Rel env (fst (filepath_Abs env source))
                                  (fst (filepath_Abs env destination)))) \<and>
      \<not> prefix ''..'' (fst (filepath_Rel env (fst (filepath_Abs env source))
                                  (fst (filepath_Abs env destination)))) \<and>
      fst (filepath_Rel env (fst (filepath_Abs env source))
                                  (fst (filepath_Abs env destination))) \<noteq> ''.'' \<longrightarrow>
         Errorf ''%w: destination path cannot be inside the source path''
           [ArgError ErrorInvalidDestination] \<in> set errs"
    using validateSourceAndDestination_contains(4) [of env source destination wld1]
    unfolding errs sd_def by auto
  from errs have 0: "\<exists>rest. errs = validateName name [] @ validateWaitTime waitTime []
                 @ snd (validateFolderFormat env wld waitTime folderFormat [])
                 @ snd (validateSourceAndDestination env
                          (fst (validateFolderFormat env wld waitTime folderFormat []))
                          source destination [])
                 @ rest"
    unfolding ff_def sd_def wld1_def by blast
  from 0 1 2 3 4 5 6 7 8 show ?thesis
    unfolding Let_def errs_def by blast
qed

theorem NewWatcher_aggregates_violations_witness:
  "Errorf ''%w: name cannot be empty'' [ArgError ErrorInvalidNameV2]
     \<in> set (snd (snd (NewWatcher unix_env example_world [] ''/src'' ''/src/backups''
                         (Float 0 0) ''2006-01-02'' True))) \<and>
   Errorf ''%w: wait time must be at least 0 seconds'' [ArgError ErrorInvalidWaitTime]
     \<in> set (snd (snd (NewWatcher unix_env example_world [] ''/src'' ''/src/backups''
                         (Float 0 0) ''2006-01-02'' True))) \<and>
   Errorf ''%w: folder format lacks adequate precision for wait time''
     [ArgError ErrorInvalidFolderFormat]
     \<in> set (snd (snd (NewWatcher unix_env example_world [] ''/src'' ''/src/backups''
                         (Float 0 0) ''2006-01-02'' True))) \<and>
   Errorf ''%w: destination path cannot be inside the source path''
     [ArgError ErrorInvalidDestination]
     \<in> set (snd (snd (NewWatcher unix_env example_world [] ''/src'' ''/src/backups''
                         (Float 0 0) ''2006-01-02'' True)))"
  using NewWatcher_aggregates_violations
          [where env = unix_env and wld = example_world and name = "[]" and source = "''/src''"
             and destination = "''/src/backups''" and waitTime = "Float 0 0"
             and folderFormat = "''2006-01-02''" and enabled = True]
  unfolding Let_def unix_paths fst_conv zero_wait
  by (simp add: unix_paths whole_second)

subsection \<open>The debounce loop\<close>

text \<open>
  One step of the loop at a time: the next send completes, the loop receives, the timer
  case is taken.
\<close>

lemma time_NewTimer_later:
  "0 < d \<Longrightarrow> clock wld - boot wld + d \<le> 9223372036854775807 \<Longrightarrow>
   time_NewTimer wld d = clock wld + d"
  by (simp add: time_NewTimer_def)

lemma backupLoop_Waits:
  "backupLoop env cb dur pick wld w None False [] = ([], Returns (wld, w))"
  by (subst backupLoop.simps) (simp add: next_step_def)

lemma backupLoop_send:
  assumes "timerChan = None \<or>
           (\<exists>deadline. timerChan = Some deadline \<and> max (clock wld) a \<le> max (clock wld) deadline)"
  shows "backupLoop env cb dur pick wld w timerChan False (a # rest)
         = backupLoop env cb dur pick (wld\<lparr>clock := max (clock wld) a\<rparr>) w timerChan True rest"
  using assms by (subst backupLoop.simps) (auto simp: next_step_def)

lemma backupLoop_receive:
  assumes "timerChan = None \<or>
           (\<exists>deadline. timerChan = Some deadline \<and> (clock wld < deadline \<or> pick (clock wld)))"
  shows "backupLoop env cb dur pick wld w timerChan True requests
         = apfst ((#) (Received (clock wld)))
             (backupLoop env cb dur pick wld w (Some (time_NewTimer wld (timerDuration env w)))
                False requests)"
  using assms by (subst backupLoop.simps) (auto simp: next_step_def)

lemma backupLoop_expire:
  assumes "requests = [] \<or> max (clock wld) deadline < max (clock wld) (hd requests)"
  shows "backupLoop env cb dur pick wld w (Some deadline) False requests
         = (case createBackup env cb (wld\<lparr>clock := max (clock wld) deadline\<rparr>) w of
              Hangs s \<Rightarrow> ([Snapshot (max (clock wld) deadline)], Hangs s)
            | Returns (wld', w') \<Rightarrow>
                apfst ((#) (Snapshot (max (clock wld) deadline)))
                  (backupLoop env cb dur pick
                     (wld'\<lparr>clock := clock wld' + int (dur (max (clock wld) deadline))\<rparr>) w'
                     None False requests))"
  using assms by (subst backupLoop.simps) (cases requests; auto simp: next_step_def)

lemma backupLoop_last_attempt:
  "backupLoop env cb dur pick wld w (Some deadline) False []
   = ([Snapshot (max (clock wld) deadline)],
      resume dur (max (clock wld) deadline)
        (createBackup env cb (wld\<lparr>clock := max (clock wld) deadline\<rparr>) w))"
proof (cases "createBackup env cb (wld\<lparr>clock := max (clock wld) deadline\<rparr>) w")
  case (Returns s)
  then show ?thesis
    by (cases s) (simp add: backupLoop_expire backupLoop_Waits)
next
  case (Hangs s)
  then show ?thesis by (simp add: backupLoop_expire)
qed

lemma backupLoop_request:
  assumes "timerChan = None \<or>
           (\<exists>deadline. timerChan = Some deadline \<and> max (clock wld) a < deadline)"
  shows "backupLoop env cb dur pick wld w timerChan False (a # rest)
         = apfst ((#) (Received (max (clock wld) a)))
             (backupLoop env cb dur pick (wld\<lparr>clock := max (clock wld) a\<rparr>) w
                (Some (time_NewTimer (wld\<lparr>clock := max (clock wld) a\<rparr>) (timerDuration env w)))
                False rest)"
proof -
  have "backupLoop env cb dur pick wld w timerChan False (a # rest)
        = backupLoop env cb dur pick (wld\<lparr>clock := max (clock wld) a\<rparr>) w timerChan True rest"
    using assms by (intro backupLoop_send) auto
  also have "\<dots> = apfst ((#) (Received (max (clock wld) a)))
             (backupLoop env cb dur pick (wld\<lparr>clock := max (clock wld) a\<rparr>) w
                (Some (time_NewTimer (wld\<lparr>clock := max (clock wld) a\<rparr>) (timerDuration env w)))
                False rest)"
    using assms by (subst backupLoop_receive) auto
  finally show ?thesis .
qed

lemma resume_state:
  "snd (state_of (resume dur t out)) = snd (state_of out)"
  "returns (resume dur t out) = returns out"
  by (cases out; cases "state_of out"; simp)+






lemma backupLoop_armed_waiting:
  assumes "0 < timerDuration env w"
    and "\<forall>b\<in>set bs. b \<le> clock wld"
    and "clock wld - boot wld + timerDuration env w \<le> 9223372036854775807"
  shows "backupLoop env cb dur pick wld w (Some (clock wld + timerDuration env w)) False bs
         = (map (\<lambda>b. Received (clock wld)) bs @ [Snapshot (clock wld + timerDuration env w)],
            resume dur (clock wld + timerDuration env w)
              (createBackup env cb (wld\<lparr>clock := clock wld + timerDuration env w\<rparr>) w))"
  using assms
proof (induction bs)
  case Nil
  then show ?case by (simp add: backupLoop_last_attempt max_def)
next
  case (Cons b bs)
  from Cons.prems have b: "max (clock wld) b = clock wld" by simp
  have same: "wld\<lparr>clock := clock wld\<rparr> = wld" by simp
  have "backupLoop env cb dur pick wld w (Some (clock wld + timerDuration env w)) False (b # bs)
        = apfst ((#) (Received (clock wld)))
            (backupLoop env cb dur pick wld w (Some (clock wld + timerDuration env w)) False bs)"
    using Cons.prems(1,3)
    by (subst backupLoop_request) (simp_all add: b same time_NewTimer_later)
  with Cons show ?case by simp
qed

lemma backupLoop_waiting:
  assumes "0 < timerDuration env w"
    and "bs \<noteq> []"
    and "\<forall>b\<in>set bs. b \<le> clock wld"
    and "clock wld - boot wld + timerDuration env w \<le> 9223372036854775807"
  shows "backupLoop env cb dur pick wld w None False bs
         = (map (\<lambda>b. Received (clock wld)) bs @ [Snapshot (clock wld + timerDuration env w)],
            resume dur (clock wld + timerDuration env w)
              (createBackup env cb (wld\<lparr>clock := clock wld + timerDuration env w\<rparr>) w))"
proof -
  from assms(2) obtain b bs' where bs: "bs = b # bs'" by (cases bs) auto
  with assms(3) have b: "max (clock wld) b = clock wld" and rest: "\<forall>b\<in>set bs'. b \<le> clock wld"
    by auto
  have same: "wld\<lparr>clock := clock wld\<rparr> = wld" by simp
  have "backupLoop env cb dur pick wld w None False (b # bs')
        = apfst ((#) (Received (clock wld)))
            (backupLoop env cb dur pick wld w (Some (clock wld + timerDuration env w)) False bs')"
    using assms(1,4)
    by (subst backupLoop_request) (simp_all add: b same time_NewTimer_later)
  with backupLoop_armed_waiting [OF assms(1) rest assms(4), of cb dur pick] bs
  show ?thesis by simp
qed

lemma backupLoop_busy:
  assumes "0 < timerDuration env w"
    and "clock wld \<le> a"
    and "bs \<noteq> []"
    and "createBackup env cb (wld\<lparr>clock := a + timerDuration env w\<rparr>) w = Returns (wld', w')"
    and "\<forall>b\<in>set bs. a + timerDuration env w < b
                    \<and> b \<le> clock wld' + int (dur (a + timerDuration env w))"
    and "a - boot wld + timerDuration env w \<le> 9223372036854775807"
    and "clock wld' + int (dur (a + timerDuration env w)) - boot wld + timerDuration env w
           \<le> 9223372036854775807"
  shows "backupLoop env cb dur pick wld w None False (a # bs)
         = ([Received a, Snapshot (a + timerDuration env w)]
              @ map (\<lambda>b. Received (clock wld' + int (dur (a + timerDuration env w)))) bs
              @ [Snapshot (clock wld' + int (dur (a + timerDuration env w)) + timerDuration env w)],
            resume dur (clock wld' + int (dur (a + timerDuration env w)) + timerDuration env w)
              (createBackup env cb
                 (wld'\<lparr>clock := clock wld' + int (dur (a + timerDuration env w))
                                   + timerDuration env w\<rparr>) w'))"
proof -
  define d where "d = timerDuration env w"
  define e where "e = clock wld' + int (dur (a + d))"
  from assms(3) obtain b bs' where bs: "bs = b # bs'" by (cases bs) auto
  with assms(5) have b: "a + d < b" by (simp add: d_def)
  have keeps: "WaitTime w' = WaitTime w" "boot wld' = boot wld"
    using createBackup_keeps [OF assms(4)] by simp_all
  have dw: "timerDuration env w' = d" using keeps(1) by (simp add: d_def timerDuration_def)
  have timer: "time_NewTimer (wld\<lparr>clock := a\<rparr>) d = a + d"
    using assms(1,6) by (simp add: time_NewTimer_later d_def)
  have "backupLoop env cb dur pick wld w None False (a # bs)
        = apfst ((#) (Received a))
            (backupLoop env cb dur pick (wld\<lparr>clock := a\<rparr>) w (Some (a + d)) False bs)"
    using assms(2)
    by (subst backupLoop_request) (simp_all add: timer [unfolded d_def] d_def max_def)
  also have "backupLoop env cb dur pick (wld\<lparr>clock := a\<rparr>) w (Some (a + d)) False bs
        = apfst ((#) (Snapshot (a + d)))
            (backupLoop env cb dur pick (wld'\<lparr>clock := e\<rparr>) w' None False bs)"
    using b assms(1,4) bs
    by (subst backupLoop_expire) (simp_all add: max_def d_def e_def)
  also have "backupLoop env cb dur pick (wld'\<lparr>clock := e\<rparr>) w' None False bs
        = (map (\<lambda>b. Received e) bs @ [Snapshot (e + d)],
           resume dur (e + d) (createBackup env cb (wld'\<lparr>clock := e + d\<rparr>) w'))"
    using backupLoop_waiting [of env w' bs "wld'\<lparr>clock := e\<rparr>" cb dur pick]
          assms(1,3,5,7) dw keeps(2)
    by (simp add: d_def e_def)
  finally show ?thesis by (simp add: d_def e_def)
qed

text \<open>
  The examples: the started watcher, the same watcher with a layout of seconds only, and
  their first snapshot attempt, one second after the epoch.
\<close>

lemma started_watcher_fields:
  "\<not> mu started_watcher" "customObservers started_watcher = []" "Metadata started_watcher = []"
  "Source started_watcher = ''/src''" "backupLoops started_watcher = 1"
  "time_Format unix_env (FolderFormat started_watcher) 1000000000 = ''1970-01-01_00-00-01.000000''"
  "time_Format unix_env (FolderFormat started_watcher) 7000000000 = ''1970-01-01_00-00-07.000000''"
  "filepath_Join unix_env (Destination started_watcher) name = ''/dst/'' @ name"
  "metadataJSONPath unix_env started_watcher = ''/dst/metadata.json''"
  by (simp_all add: started_watcher_def example_watcher_def unix_env_def unix_Join_def
        utc_Format_def metadataJSONPath_def)

lemma seconds_watcher_fields:
  "\<not> mu seconds_watcher" "customObservers seconds_watcher = []" "Metadata seconds_watcher = []"
  "Source seconds_watcher = ''/src''" "backupLoops seconds_watcher = 1"
  "time_Format unix_env (FolderFormat seconds_watcher) 1000000000 = ''01''"
  "time_Format unix_env (FolderFormat seconds_watcher) 61000000000 = ''01''"
  "filepath_Join unix_env (Destination seconds_watcher) name = ''/dst/'' @ name"
  "metadataJSONPath unix_env seconds_watcher = ''/dst/metadata.json''"
  by (simp_all add: seconds_watcher_def started_watcher_def example_watcher_def unix_env_def
        unix_Join_def utc_Format_def metadataJSONPath_def)

lemma epoch_world_fields:
  "clock epoch_world = 0" "boot epoch_world = 0"
  "epoch_world\<lparr>clock := 1000000000\<rparr> = example_world"
  "boot example_world = 0"
  by (simp_all add: epoch_world_def example_world_def)

lemma first_attempt:
  "createBackup unix_env no_calls example_world started_watcher
   = Returns (example_world
                \<lparr>fs := ((fs example_world)
                           (''/dst/1970-01-01_00-00-01.000000'' := fs example_world ''/src''))
                         (''/dst/metadata.json'' :=
                            File 1000000000 True
                              (BackupsJSON [\<lparr>BackupName = [], Timestamp = Float 1 0,
                                             Path = ''1970-01-01_00-00-01.000000'',
                                             Compressed = False\<rparr>])),
                  copy_calls := 1, notified := []\<rparr>,
              started_watcher
                \<lparr>Metadata := [\<lparr>BackupName = [], Timestamp = Float 1 0,
                                Path = ''1970-01-01_00-00-01.000000'', Compressed = False\<rparr>],
                  mu := False\<rparr>)"
  using createBackup_fresh
          [where env = unix_env and cb = no_calls and wld = example_world and w = started_watcher
             and destinationPath = "''/dst/1970-01-01_00-00-01.000000''"
             and backup = "\<lparr>BackupName = [], Timestamp = Float 1 0,
                            Path = ''1970-01-01_00-00-01.000000'', Compressed = False\<rparr>"]
  by (simp add: started_watcher_fields example_world_fields example_timestamp example_marshal
        no_calls_def)

lemma first_attempt_seconds:
  "createBackup unix_env no_calls example_world seconds_watcher
   = Returns (example_world
                \<lparr>fs := ((fs example_world)(''/dst/01'' := fs example_world ''/src''))
                         (''/dst/metadata.json'' :=
                            File 1000000000 True
                              (BackupsJSON [\<lparr>BackupName = [], Timestamp = Float 1 0,
                                             Path = ''01'', Compressed = False\<rparr>])),
                  copy_calls := 1, notified := []\<rparr>,
              seconds_watcher
                \<lparr>Metadata := [\<lparr>BackupName = [], Timestamp = Float 1 0,
                                Path = ''01'', Compressed = False\<rparr>],
                  mu := False\<rparr>)"
  using createBackup_fresh
          [where env = unix_env and cb = no_calls and wld = example_world and w = seconds_watcher
             and destinationPath = "''/dst/01''"
             and backup = "\<lparr>BackupName = [], Timestamp = Float 1 0,
                            Path = ''01'', Compressed = False\<rparr>"]
  by (simp add: seconds_watcher_fields example_world_fields example_timestamp example_marshal
        no_calls_def example_world_def)




text \<open>
  C2, as the code has it, for a watcher with one \<^verbatim>\<open>backupLoop\<close> and the window \<open>d\<close> of
  C1. A first request leads to a snapshot attempt \<open>d\<close> later, which returns and lets the
  loop be back in its \<^verbatim>\<open>select\<close> at the instant \<open>e\<close>. The requests that are sent while
  the attempt runs, however many, wait in the slot of the channel and behind it; the
  loop receives every one of them at \<open>e\<close> and calls \<^verbatim>\<open>createBackup\<close> exactly once more, at
  \<open>e + d\<close>, and ends as that call ends. This one further attempt appends one record to
  the history if \<^verbatim>\<open>os.Stat\<close> fails on its target path, and none otherwise.
\<close>

theorem backupLoop_requests_while_busy:
  assumes "backupLoops w = 1"
    and "d = int64 env (f64_mul (WaitTime w) (f64_of_int 1000000000))"
    and "0 < d"
    and "startFSNotifyWatcher events = a # bs"
    and "bs \<noteq> []"
    and "clock wld \<le> a"
    and "createBackup env cb (wld\<lparr>clock := a + d\<rparr>) w = Returns (wld', w')"
    and "e = clock wld' + int (dur (a + d))"
    and "\<forall>b\<in>set bs. a + d < b \<and> b \<le> e"
    and "e - boot wld + d \<le> 9223372036854775807"
  shows "(\<forall>s. 0 < s \<and> s \<le> 4000000000 \<and> WaitTime w = f64_of_int s \<longrightarrow> d = s * 1000000000) \<and>
         backupLoop env cb dur pick wld w None False (startFSNotifyWatcher events)
         = ([Received a, Snapshot (a + d)] @ map (\<lambda>b. Received e) bs @ [Snapshot (e + d)],
            resume dur (e + d) (createBackup env cb (wld'\<lparr>clock := e + d\<rparr>) w')) \<and>
         Metadata (snd (state_of (createBackup env cb (wld'\<lparr>clock := e + d\<rparr>) w')))
         = (if isl (os_Stat (fs wld' (filepath_Join env (Destination w')
                                        (time_Format env (FolderFormat w') (e + d)))))
            then Metadata w' @
                   [\<lparr>BackupName = [],
                     Timestamp = f64_add (f64_of_int (Unix (e + d)))
                                   (f64_div (f64_of_int (Nanosecond (e + d)))
                                      (f64_of_int 1000000000)),
                     Path = time_Format env (FolderFormat w') (e + d),
                     Compressed = False\<rparr>]
            else Metadata w')"
proof -
  have d: "d = timerDuration env w" using assms(2) by (simp add: timerDuration_def)
  from assms(5) obtain b where "b \<in> set bs" by (cases bs) auto
  with assms(9) have "a + d < e" by fastforce
  with assms(3,10) have first: "a - boot wld + d \<le> 9223372036854775807" by linarith
  have loop: "backupLoop env cb dur pick wld w None False (a # bs)
         = ([Received a, Snapshot (a + d)] @ map (\<lambda>b. Received e) bs @ [Snapshot (e + d)],
            resume dur (e + d) (createBackup env cb (wld'\<lparr>clock := e + d\<rparr>) w'))"
    using backupLoop_busy [of env w wld a bs cb wld' w' dur pick] assms(3,5,6,7,9,10) first
    unfolding d assms(8) by simp
  have whole: "d = s * 1000000000"
    if "0 < s" "s \<le> 4000000000" "WaitTime w = f64_of_int s" for s
    using that whole_seconds(2) [of s env] assms(2) by simp
  have "\<not> mu w'" using assms(7) by (rule createBackup_unlocks)
  from createBackup_history [OF this, of env cb "wld'\<lparr>clock := e + d\<rparr>"] loop whole
  show ?thesis
    unfolding assms(4) by simp
qed

theorem backupLoop_requests_while_busy_witness:
  "backupLoops started_watcher = 1 \<and>
   int64 unix_env (f64_mul (WaitTime started_watcher) (f64_of_int 1000000000)) = 1000000000 \<and>
   returns (createBackup unix_env no_calls (epoch_world\<lparr>clock := 1000000000\<rparr>)
              started_watcher) \<and>
   clock (fst (state_of (createBackup unix_env no_calls (epoch_world\<lparr>clock := 1000000000\<rparr>)
                           started_watcher))) + int (five_seconds 1000000000) = 6000000000 \<and>
   fst (backupLoop unix_env no_calls five_seconds request_first epoch_world started_watcher
          None False
          (startFSNotifyWatcher [(0, 1), (2000000000, 2), (3000000000, 2), (4000000000, 1)]))
     = [Received 0, Snapshot 1000000000, Received 6000000000, Received 6000000000,
        Received 6000000000, Snapshot 7000000000] \<and>
   Metadata (snd (state_of (snd
     (backupLoop unix_env no_calls five_seconds request_first epoch_world started_watcher
        None False
        (startFSNotifyWatcher [(0, 1), (2000000000, 2), (3000000000, 2), (4000000000, 1)])))))
     = [\<lparr>BackupName = [], Timestamp = Float 1 0, Path = ''1970-01-01_00-00-01.000000'',
         Compressed = False\<rparr>,
        \<lparr>BackupName = [], Timestamp = Float 7 0, Path = ''1970-01-01_00-00-07.000000'',
         Compressed = False\<rparr>]"
proof -
  have seven_seconds:
    "f64_add (f64_of_int (Unix 7000000000))
       (f64_div (f64_of_int (Nanosecond 7000000000)) (f64_of_int 1000000000)) = Float 7 0"
    by code_simp
  have free: "fs example_world ''/dst/1970-01-01_00-00-07.000000'' = NoNode NotExist"
    by (simp add: example_world_def)
  from backupLoop_requests_while_busy
         [where w = started_watcher and env = unix_env and d = 1000000000
            and events = "[(0, 1), (2000000000, 2), (3000000000, 2), (4000000000, 1)]"
            and a = 0 and bs = "[2000000000, 3000000000, 4000000000]"
            and wld = epoch_world and cb = no_calls and dur = five_seconds
            and pick = request_first and e = 6000000000
            and wld' = "example_world
                   \<lparr>fs := ((fs example_world)
                              (''/dst/1970-01-01_00-00-01.000000'' := fs example_world ''/src''))
                            (''/dst/metadata.json'' :=
                               File 1000000000 True
                                 (BackupsJSON [\<lparr>BackupName = [], Timestamp = Float 1 0,
                                                Path = ''1970-01-01_00-00-01.000000'',
                                                Compressed = False\<rparr>])),
                     copy_calls := 1, notified := []\<rparr>"
            and w' = "started_watcher
                   \<lparr>Metadata := [\<lparr>BackupName = [], Timestamp = Float 1 0,
                                   Path = ''1970-01-01_00-00-01.000000'',
                                   Compressed = False\<rparr>],
                     mu := False\<rparr>"]
  show ?thesis
    by (simp add: example_duration started_watcher_fields epoch_world_fields first_attempt
          five_seconds_def example_world_fields resume_state seven_seconds free)
qed

text \<open>
  C2 as the specification states it fails: \<^verbatim>\<open>NewWatcher\<close> accepts a layout that prints
  the seconds within the minute together with a wait time of one second. With copying
  that takes 59 seconds, a change during the first attempt leads to one further attempt
  61 seconds after the epoch, whose target folder has the name of the first one, so it
  appends nothing: no additional backup follows.
\<close>

theorem backupLoop_target_exists_counterexample:
  "snd (snd (NewWatcher unix_env example_world ''Main Watcher'' ''/src'' ''/dst'' (Float 1 0)
               ''05'' True)) = [] \<and>
   int64 unix_env (f64_mul (WaitTime seconds_watcher) (f64_of_int 1000000000)) = 1000000000 \<and>
   fst (backupLoop unix_env no_calls fifty_nine_seconds request_first epoch_world
          seconds_watcher None False (startFSNotifyWatcher [(0, 1), (2000000000, 2)]))
     = [Received 0, Snapshot 1000000000, Received 60000000000, Snapshot 61000000000] \<and>
   returns (snd (backupLoop unix_env no_calls fifty_nine_seconds request_first epoch_world
                   seconds_watcher None False
                   (startFSNotifyWatcher [(0, 1), (2000000000, 2)]))) \<and>
   Metadata (snd (state_of (snd
     (backupLoop unix_env no_calls fifty_nine_seconds request_first epoch_world
        seconds_watcher None False (startFSNotifyWatcher [(0, 1), (2000000000, 2)])))))
     = [\<lparr>BackupName = [], Timestamp = Float 1 0, Path = ''01'', Compressed = False\<rparr>]"
proof -
  have d: "timerDuration unix_env seconds_watcher = 1000000000"
    by (simp add: timerDuration_def example_duration)
  have config: "snd (snd (NewWatcher unix_env example_world ''Main Watcher'' ''/src'' ''/dst''
                            (Float 1 0) ''05'' True)) = []"
    apply (simp add: NewWatcher_def)
    apply (simp add: validateName_def validateWaitTime_def validateFolderFormat_eq whole_second)
    apply (simp add: validateDirOld_def os_MkdirAll_def validateSourceAndDestination_def
             unix_paths loadMetadata_def metadataJSONPath_def example_world_def)
    done
  have loop: "backupLoop unix_env no_calls fifty_nine_seconds request_first epoch_world
          seconds_watcher None False [0, 2000000000]
        = ([Received 0, Snapshot 1000000000, Received 60000000000, Snapshot 61000000000],
           resume fifty_nine_seconds 61000000000
             (createBackup unix_env no_calls
                (example_world
                   \<lparr>fs := ((fs example_world)(''/dst/01'' := fs example_world ''/src''))
                            (''/dst/metadata.json'' :=
                               File 1000000000 True
                                 (BackupsJSON [\<lparr>BackupName = [], Timestamp = Float 1 0,
                                                Path = ''01'', Compressed = False\<rparr>])),
                     copy_calls := 1, notified := [], clock := 61000000000\<rparr>)
                (seconds_watcher
                   \<lparr>Metadata := [\<lparr>BackupName = [], Timestamp = Float 1 0,
                                   Path = ''01'', Compressed = False\<rparr>],
                     mu := False\<rparr>)))"
    using backupLoop_busy
            [where env = unix_env and w = seconds_watcher and wld = epoch_world and a = 0
               and bs = "[2000000000]" and cb = no_calls and dur = fifty_nine_seconds
               and pick = request_first
               and wld' = "example_world
                   \<lparr>fs := ((fs example_world)(''/dst/01'' := fs example_world ''/src''))
                            (''/dst/metadata.json'' :=
                               File 1000000000 True
                                 (BackupsJSON [\<lparr>BackupName = [], Timestamp = Float 1 0,
                                                Path = ''01'', Compressed = False\<rparr>])),
                     copy_calls := 1, notified := []\<rparr>"
               and w' = "seconds_watcher
                   \<lparr>Metadata := [\<lparr>BackupName = [], Timestamp = Float 1 0,
                                   Path = ''01'', Compressed = False\<rparr>],
                     mu := False\<rparr>"]
    by (simp add: d first_attempt_seconds fifty_nine_seconds_def example_world_fields
          epoch_world_fields)
  show ?thesis
    unfolding startFSNotifyWatcher.simps
    by (simp add: config example_duration loop resume_state createBackup_eq
          seconds_watcher_fields example_world_fields)
qed

subsection \<open>Starting the watcher\<close>

lemma createBackupIfBackupIsOutdated_eq:
  "createBackupIfBackupIsOutdated env wld w =
     (if Metadata w = [] then (w\<lparr>backupRequestChan := backupRequestChan w + 1\<rparr>, None)
      else
        case doFoldersMatch (fs wld (Source w))
               (fs wld (filepath_Join env (Destination w) (Path (last (Metadata w))))) of
          Inl err \<Rightarrow>
            (w, Some (Errorf ''error comparing source and latest backup: %w'' [ArgError err]))
        | Inr foldersMatch \<Rightarrow>
            if foldersMatch then (w, None)
            else (w\<lparr>backupRequestChan := backupRequestChan w + 1\<rparr>, None))"
  by (simp add: createBackupIfBackupIsOutdated_def Let_def last_conv_nth split: sum.splits)

lemma backupLoop_start_requests:
  "k \<le> 1 \<Longrightarrow>
   length (snapshots (fst (backupLoop env cb dur pick wld w None False (replicate k (clock wld)))))
     = k"
proof (cases k)
  case 0
  then show ?thesis by (simp add: backupLoop_Waits)
next
  case (Suc n)
  assume "k \<le> 1"
  with Suc have k: "k = 1" by simp
  have same: "wld\<lparr>clock := clock wld\<rparr> = wld" by simp
  have "backupLoop env cb dur pick wld w None False [clock wld]
        = apfst ((#) (Received (clock wld)))
            (backupLoop env cb dur pick wld w
               (Some (time_NewTimer wld (timerDuration env w))) False [])"
    by (subst backupLoop_request) (simp_all add: same)
  then show ?thesis by (simp add: k backupLoop_last_attempt)
qed

text \<open>
  C4. When \<^verbatim>\<open>StartWatcher\<close> returns without error, the history is unchanged and the number
  of requests it has sent on \<^verbatim>\<open>backupRequestChan\<close> is one if the history is empty, and
  otherwise zero if the tree comparator returns \<open>true\<close> for the source and the folder of
  the most recent backup and one if it returns \<open>false\<close> (the comparison has then
  succeeded). With no other request, the loop calls \<^verbatim>\<open>createBackup\<close> as many times as
  requests were sent: once, or not at all when the latest backup matches.
\<close>

theorem StartWatcher_initial_snapshot:
  assumes "StartWatcher env wld w = Returns (w', None)"
  shows "Metadata w' = Metadata w \<and>
         backupRequestChan w' = backupRequestChan w +
           (if Metadata w = [] then 1
            else if doFoldersMatch (fs wld (Source w))
                      (fs wld (filepath_Join env (Destination w) (Path (last (Metadata w)))))
                    = Inr True
            then 0 else 1) \<and>
         (Metadata w \<noteq> [] \<longrightarrow>
            \<not> isl (doFoldersMatch (fs wld (Source w))
                      (fs wld (filepath_Join env (Destination w) (Path (last (Metadata w))))))) \<and>
         length (snapshots (fst (backupLoop env cb dur pick wld0 w' None False
                   (replicate (backupRequestChan w' - backupRequestChan w) (clock wld0)))))
           = backupRequestChan w' - backupRequestChan w"
proof -
  have "Metadata w' = Metadata w \<and>
         backupRequestChan w' = backupRequestChan w +
           (if Metadata w = [] then 1
            else if doFoldersMatch (fs wld (Source w))
                      (fs wld (filepath_Join env (Destination w) (Path (last (Metadata w)))))
                    = Inr True
            then 0 else 1) \<and>
         (Metadata w \<noteq> [] \<longrightarrow>
            \<not> isl (doFoldersMatch (fs wld (Source w))
                      (fs wld (filepath_Join env (Destination w) (Path (last (Metadata w)))))))"
    using assms
    by (auto simp: StartWatcher_def Lock_def Unlock_def createBackupIfBackupIsOutdated_eq
             split: if_splits sum.splits prod.splits option.splits)
  moreover from this have "backupRequestChan w' - backupRequestChan w \<le> 1" by simp
  then have "length (snapshots (fst (backupLoop env cb dur pick wld0 w' None False
                   (replicate (backupRequestChan w' - backupRequestChan w) (clock wld0)))))
           = backupRequestChan w' - backupRequestChan w"
    by (rule backupLoop_start_requests)
  ultimately show ?thesis by simp
qed

lemma StartWatcher_examples:
  "StartWatcher unix_env example_world example_watcher
     = Returns (example_watcher\<lparr>mu := False, backupRequestChan := 1, backupLoops := 1\<rparr>, None)"
  "StartWatcher unix_env backed_up_world restarted_watcher
     = Returns (restarted_watcher\<lparr>mu := False, backupLoops := 1\<rparr>, None)"
proof -
  show "StartWatcher unix_env example_world example_watcher
     = Returns (example_watcher\<lparr>mu := False, backupRequestChan := 1, backupLoops := 1\<rparr>, None)"
    by (simp add: StartWatcher_def Lock_def Unlock_def createBackupIfBackupIsOutdated_eq
          example_watcher_def)
  have "doFoldersMatch (fs backed_up_world ''/src'')
          (fs backed_up_world ''/dst/1970-01-01_00-00-00.000000'') = Inr True"
    by (simp add: backed_up_world_def example_world_def doFoldersMatch_Dir doFilesMatch_def)
  then show "StartWatcher unix_env backed_up_world restarted_watcher
     = Returns (restarted_watcher\<lparr>mu := False, backupLoops := 1\<rparr>, None)"
    by (simp add: StartWatcher_def Lock_def Unlock_def createBackupIfBackupIsOutdated_eq
          restarted_watcher_def example_watcher_def unix_env_def unix_Join_def)
qed

theorem StartWatcher_initial_snapshot_witness:
  "StartWatcher unix_env example_world example_watcher
     = Returns (example_watcher\<lparr>mu := False, backupRequestChan := 1, backupLoops := 1\<rparr>, None) \<and>
   length (snapshots (fst (backupLoop unix_env no_calls five_seconds request_first epoch_world
             (example_watcher\<lparr>mu := False, backupRequestChan := 1, backupLoops := 1\<rparr>)
             None False (replicate 1 (clock epoch_world))))) = 1 \<and>
   StartWatcher unix_env backed_up_world restarted_watcher
     = Returns (restarted_watcher\<lparr>mu := False, backupLoops := 1\<rparr>, None) \<and>
   doFoldersMatch (fs backed_up_world (Source restarted_watcher))
     (fs backed_up_world
        (filepath_Join unix_env (Destination restarted_watcher)
           (Path (last (Metadata restarted_watcher))))) = Inr True \<and>
   snapshots (fst (backupLoop unix_env no_calls five_seconds request_first epoch_world
                (restarted_watcher\<lparr>mu := False, backupLoops := 1\<rparr>)
                None False (replicate 0 (clock epoch_world)))) = []"
proof -
  have a: "backupRequestChan example_watcher = 0" "Metadata example_watcher = []"
    and b: "backupRequestChan restarted_watcher = 0" "Metadata restarted_watcher \<noteq> []"
    by (simp_all add: example_watcher_def restarted_watcher_def)
  from StartWatcher_initial_snapshot
         [OF StartWatcher_examples(1), where cb = no_calls and dur = five_seconds
            and pick = request_first and ?wld0.0 = epoch_world]
       StartWatcher_initial_snapshot
         [OF StartWatcher_examples(2), where cb = no_calls and dur = five_seconds
            and pick = request_first and ?wld0.0 = epoch_world]
       StartWatcher_examples
  show ?thesis
    by (simp add: a b split: if_splits)
qed

text \<open>
  Every accepted \<^verbatim>\<open>StartWatcher\<close> starts a loop and \<^verbatim>\<open>StopWatcher\<close> ends none: after a
  start, a stop and another start, two loops receive from the same channel.
\<close>

lemma restart_adds_a_loop:
  "StartWatcher unix_env example_world example_watcher
     = Returns (example_watcher\<lparr>mu := False, backupRequestChan := 1, backupLoops := 1\<rparr>, None) \<and>
   StopWatcher (fsnotify_NewWatcher
                  (example_watcher\<lparr>mu := False, backupRequestChan := 1, backupLoops := 1\<rparr>))
     = Returns (example_watcher\<lparr>mu := False, backupRequestChan := 1, backupLoops := 1\<rparr>, None) \<and>
   backupLoops (fst (state_of (StartWatcher unix_env example_world
                  (example_watcher\<lparr>mu := False, backupRequestChan := 1, backupLoops := 1\<rparr>))))
     = 2"
  by (simp add: StartWatcher_def StopWatcher_def fsnotify_NewWatcher_def Lock_def Unlock_def
        createBackupIfBackupIsOutdated_eq example_watcher_def)

end
